theory Spec2Isabelle
  imports Main "HOL-Library.Char_ord" "HOL-Library.List_Lexorder"
begin

section \<open>Shared vocabulary\<close>

text \<open>
  The bus clients (\<^verbatim>\<open>event-bus/src/rabbitmq-event-bus.ts\<close>,
  \<^verbatim>\<open>command-bus/src/rabbitmq-command-bus.ts\<close>) and the change-capture service
  (\<^verbatim>\<open>ChangeDataCapture\<close> in \<^verbatim>\<open>api-gateway/src/index.ts\<close>) are embedded as
  functions that return, besides their result, the list of effects they perform in
  program order: log lines, handler invocations, timer waits, broker calls and
  database writes. Collaborators outside the repository (the broker channel, the
  handlers, \<^verbatim>\<open>JSON.parse\<close>, \<^verbatim>\<open>JSON.stringify\<close>, the database driver) are
  parameters; their mutable state is threaded through as a value of type \<open>'w\<close>.
  A log line is recorded with its level and the ASCII text of its message, without
  the structured fields that go with it. Broker acknowledgements and the logger do
  not throw.
\<close>

datatype level = Debug | Info | Warn | Error

datatype error =
    ChannelNotInitialized
  | ConnectFailed
  | PublishReturnedFalse
  | Thrown string

text \<open>A handler object is referred to by its address; \<^verbatim>\<open>indexOf\<close> and
  \<^verbatim>\<open>!==\<close> compare addresses.\<close>

type_synonym href = nat

text \<open>An \<^verbatim>\<open>amqp.Message\<close>: the delivery tag the broker acknowledges by, and the
  body.\<close>

record delivery =
  deliveryTag :: nat
  content :: string

text \<open>What \<^verbatim>\<open>JSON.parse\<close> returns when it does not throw: \<^verbatim>\<open>null\<close>, or a value
  that the code then treats as an envelope.\<close>

datatype 'e json = JNull | JValue 'e

text \<open>The object handed to \<^verbatim>\<open>channel.nack\<close>: a fetched delivery, or (in
  \<^verbatim>\<open>getDLQMessages\<close>) a parsed body cast to \<^verbatim>\<open>amqp.Message\<close>.\<close>

datatype 'e nack_arg = Fetched delivery | Parsed "'e json"

text \<open>
  Effects, in the order the code performs them. \<open>Send x k body hdrs\<close> is a call of
  \<^verbatim>\<open>channel.publish\<close> on exchange \<open>x\<close> with routing key \<open>k\<close>; \<open>Fetch m\<close> is a
  \<^verbatim>\<open>channel.get\<close> that returned \<open>m\<close>; \<open>SetPosition t id\<close> is the completed upsert
  of \<^verbatim>\<open>audit.cdc_position\<close>; \<open>Nack a allUpTo requeue\<close> is \<^verbatim>\<open>channel.nack\<close>.
\<close>

datatype 'e effect =
    Log level string
  | Invoke href 'e
  | Sleep int
  | Ack delivery
  | Nack "'e nack_arg" bool bool
  | Send string string string "(string \<times> string) list"
  | Fetch delivery
  | SetPosition string string
  | ReleaseClient

record ('e, 'w) handler =
  entityType :: string
  handle :: "'e \<Rightarrow> 'w \<Rightarrow> error option \<times> 'w"

section \<open>Configuration\<close>

record config =
  prefetch :: int
  maxRetries :: int
  retryDelayMs :: int

text \<open>\<^verbatim>\<open>x || d\<close> on an optional number: \<^verbatim>\<open>undefined\<close> and \<^verbatim>\<open>0\<close> are falsy.\<close>

definition or_default :: "int option \<Rightarrow> int \<Rightarrow> int" where
  "or_default x d = (case x of None \<Rightarrow> d | Some v \<Rightarrow> if v = 0 then d else v)"

text \<open>The constructor of \<^verbatim>\<open>RabbitMQEventBus\<close> and \<^verbatim>\<open>RabbitMQCommandBus\<close>.\<close>

definition mk_config :: "int option \<Rightarrow> int option \<Rightarrow> int option \<Rightarrow> config" where
  "mk_config p m d =
     \<lparr>prefetch = or_default p 10, maxRetries = or_default m 3, retryDelayMs = or_default d 5000\<rparr>"

section \<open>Dispatcher: \<^verbatim>\<open>handleWithRetry\<close> and the consume callback\<close>

text \<open>
  \<^verbatim>\<open>handleWithRetry(handler, event, attempt = 1)\<close>. The attempt counter starts at 1
  and only grows, so it is a natural number; \<^verbatim>\<open>Math.pow(2, attempt - 1)\<close> is then
  an exact power of two. The result is the rethrown error, if any.
\<close>

function handleWithRetry ::
  "config \<Rightarrow> ('e, 'w) handler \<Rightarrow> href \<Rightarrow> 'e \<Rightarrow> nat \<Rightarrow> 'w \<Rightarrow> error option \<times> 'w \<times> 'e effect list"
where
  "handleWithRetry cfg h r ev attempt w =
     (case handle h ev w of
        (None, w') \<Rightarrow> (None, w', [Invoke r ev])
      | (Some err, w') \<Rightarrow>
          if int attempt < maxRetries cfg then
            (case handleWithRetry cfg h r ev (attempt + 1) w' of
               (res, w'', effs) \<Rightarrow>
                 (res, w'',
                  [Invoke r ev, Log Warn ''Handler failed, retrying'',
                   Sleep (retryDelayMs cfg * 2 ^ (attempt - 1))] @ effs))
          else (Some err, w', [Invoke r ev, Log Error ''Handler failed after all retries'']))"
  by pat_completeness auto
termination
  by (relation "measure (\<lambda>(cfg, h, r, ev, attempt, w). nat (maxRetries cfg - int attempt))") auto

declare handleWithRetry.simps [simp del]

text \<open>The consumer that \<^verbatim>\<open>subscribe\<close> installs: a closure over the queue name, the
  event type and the handler object itself.\<close>

record consumer =
  c_queue :: string
  c_eventType :: string
  c_handler :: href

text \<open>
  The callback given to \<^verbatim>\<open>channel.consume\<close>. A \<^verbatim>\<open>null\<close> message (consumer
  cancelled) returns at once. Reading \<^verbatim>\<open>event.id\<close> for the first debug line throws
  when the parsed body is \<^verbatim>\<open>null\<close>, which lands in the same \<^verbatim>\<open>catch\<close> as a
  syntax error.
\<close>

definition on_message ::
  "config \<Rightarrow> (string \<Rightarrow> 'e json option) \<Rightarrow> (href \<Rightarrow> ('e, 'w) handler) \<Rightarrow> consumer \<Rightarrow>
   delivery option \<Rightarrow> 'w \<Rightarrow> 'w \<times> 'e effect list"
where
  "on_message cfg parse heap c msg w =
     (case msg of
        None \<Rightarrow> (w, [])
      | Some m \<Rightarrow>
          (case parse (content m) of
             None \<Rightarrow> (w, [Log Error ''Error processing event'', Nack (Fetched m) False False])
           | Some JNull \<Rightarrow> (w, [Log Error ''Error processing event'', Nack (Fetched m) False False])
           | Some (JValue ev) \<Rightarrow>
               (case handleWithRetry cfg (heap (c_handler c)) (c_handler c) ev 1 w of
                  (None, w', effs) \<Rightarrow>
                    (w', [Log Debug ''Processing event''] @ effs @
                         [Ack m, Log Debug ''Event processed successfully''])
                | (Some err, w', effs) \<Rightarrow>
                    (w', [Log Debug ''Processing event''] @ effs @
                         [Log Error ''Error processing event'', Nack (Fetched m) False False]))))"

text \<open>Observations on an effect list.\<close>

fun is_invoke :: "'e effect \<Rightarrow> bool" where
  "is_invoke (Invoke r ev) = True"
| "is_invoke other = False"

fun is_ack :: "'e effect \<Rightarrow> bool" where
  "is_ack (Ack m) = True"
| "is_ack other = False"

fun is_nack :: "'e effect \<Rightarrow> bool" where
  "is_nack (Nack a u q) = True"
| "is_nack other = False"

fun is_sleep :: "'e effect \<Rightarrow> bool" where
  "is_sleep (Sleep d) = True"
| "is_sleep other = False"

definition invocations :: "'e effect list \<Rightarrow> nat" where
  "invocations effs = length (filter is_invoke effs)"

definition acks :: "'e effect list \<Rightarrow> 'e effect list" where
  "acks effs = filter is_ack effs"

definition nacks :: "'e effect list \<Rightarrow> 'e effect list" where
  "nacks effs = filter is_nack effs"

definition sleeps :: "'e effect list \<Rightarrow> 'e effect list" where
  "sleeps effs = filter is_sleep effs"

section \<open>Envelope\<close>

text \<open>\<^verbatim>\<open>DomainEvent<T>\<close> and \<^verbatim>\<open>DomainCommand<T>\<close> have the same fields.\<close>

record metadata =
  source :: string
  correlationId :: string
  userId :: "string option"
  tenantId :: "string option"
  version :: int

record 'd envelope =
  ev_id :: string
  ev_type :: string
  ev_entity :: string
  ev_timestamp :: string
  ev_data :: 'd
  ev_metadata :: metadata

section \<open>Bus state and \<^verbatim>\<open>connect\<close>\<close>

text \<open>A queue as \<^verbatim>\<open>assertQueue\<close> declares it.\<close>

record queue =
  q_name :: string
  q_deadLetterExchange :: "string option"
  q_messageTtl :: "int option"

text \<open>
  The fields of a bus object, together with the topology and the consumers it has
  declared on its channel. \<open>handlers\<close> is the \<^verbatim>\<open>Map<string, IEventHandler[]>\<close>.
\<close>

record bus =
  connection :: "nat option"
  channel :: "nat option"
  isConnected :: bool
  config :: config
  handlers :: "string \<Rightarrow> href list option"
  queues :: "queue list"
  bindings :: "(string \<times> string \<times> string) list"
  consumers :: "consumer list"

text \<open>A bus object as its field initialisers and constructor leave it.\<close>

definition new_bus :: "config \<Rightarrow> bus" where
  "new_bus cfg =
     \<lparr>connection = None, channel = None, isConnected = False, config = cfg,
      handlers = (\<lambda>t. None), queues = [], bindings = [], consumers = []\<rparr>"

definition MAIN_EXCHANGE :: string where "MAIN_EXCHANGE = ''agentic.events''"
definition DLQ_QUEUE :: string where "DLQ_QUEUE = ''agentic.dlq''"
definition CMD_MAIN_EXCHANGE :: string where "CMD_MAIN_EXCHANGE = ''agentic.commands''"

text \<open>
  How far one pass through the \<^verbatim>\<open>try\<close> block of \<^verbatim>\<open>connect\<close> gets:
  \<^verbatim>\<open>amqp.connect\<close> throws; the connection is stored and \<^verbatim>\<open>createChannel\<close> throws;
  both are stored and \<^verbatim>\<open>prefetch\<close>, \<^verbatim>\<open>setupExchanges\<close> or \<^verbatim>\<open>setupDLQ\<close> throws;
  or everything succeeds.
\<close>

datatype attempt_outcome =
    ConnectThrows
  | CreateChannelThrows nat
  | SetupThrows nat nat
  | Established nat nat

fun is_established :: "attempt_outcome \<Rightarrow> bool" where
  "is_established (Established cn ch) = True"
| "is_established other = False"

fun after_attempt :: "attempt_outcome \<Rightarrow> bus \<Rightarrow> bus" where
  "after_attempt ConnectThrows b = b"
| "after_attempt (CreateChannelThrows cn) b = b\<lparr>connection := Some cn\<rparr>"
| "after_attempt (SetupThrows cn ch) b = b\<lparr>connection := Some cn, channel := Some ch\<rparr>"
| "after_attempt (Established cn ch) b =
     b\<lparr>connection := Some cn, channel := Some ch, isConnected := True\<rparr>"

text \<open>
  The \<^verbatim>\<open>while (retries < maxRetries)\<close> loop of \<^verbatim>\<open>connect\<close>, with \<^verbatim>\<open>maxRetries = 5\<close>.
  \<open>dial\<close> is one pass through the \<^verbatim>\<open>try\<close> block. The command bus has the same
  loop.
\<close>

function connect_loop ::
  "('w \<Rightarrow> attempt_outcome \<times> 'w) \<Rightarrow> nat \<Rightarrow> bus \<Rightarrow> 'w \<Rightarrow>
   (error + unit) \<times> bus \<times> 'w \<times> 'e effect list"
where
  "connect_loop dial retries b w =
     (if retries < 5 then
        (case dial w of (outcome, w') \<Rightarrow>
           if is_established outcome then
             (Inr (), after_attempt outcome b, w',
              [Log Info ''Connecting to RabbitMQ...'', Log Info ''Connected to RabbitMQ''])
           else
             (let retries' = retries + 1;
                  delayMs = min (1000 * 2 ^ retries') (30000 :: int)
              in if retries' \<ge> 5 then
                   (Inl ConnectFailed, after_attempt outcome b, w',
                    [Log Info ''Connecting to RabbitMQ...'',
                     Log Warn ''RabbitMQ connection failed, retrying''])
                 else
                   (case connect_loop dial retries' (after_attempt outcome b) w' of
                      (res, b', w'', effs) \<Rightarrow>
                        (res, b', w'',
                         [Log Info ''Connecting to RabbitMQ...'',
                          Log Warn ''RabbitMQ connection failed, retrying'',
                          Sleep delayMs] @ effs))))
      else (Inr (), b, w, []))"
  by pat_completeness auto
termination
  by (relation "measure (\<lambda>(dial, retries, b, w). 5 - retries)") auto

declare connect_loop.simps [simp del]

definition connect ::
  "('w \<Rightarrow> attempt_outcome \<times> 'w) \<Rightarrow> bus \<Rightarrow> 'w \<Rightarrow> (error + unit) \<times> bus \<times> 'w \<times> 'e effect list"
where
  "connect dial b w =
     (if isConnected b \<and> connection b \<noteq> None then
        (Inr (), b, w, [Log Info ''Already connected to RabbitMQ''])
      else connect_loop dial 0 b w)"

definition attempts :: "'e effect list \<Rightarrow> nat" where
  "attempts effs = length (filter (\<lambda>x. x = Log Info ''Connecting to RabbitMQ...'') effs)"

section \<open>Publisher\<close>

text \<open>
  \<^verbatim>\<open>RabbitMQEventBus.publish\<close>. \<open>stringify\<close> is \<^verbatim>\<open>JSON.stringify\<close> (\<open>Inl\<close> when it
  throws); \<open>chan_publish\<close> is \<^verbatim>\<open>channel.publish\<close>: it throws (\<open>Inl\<close>) or returns
  its boolean.
\<close>

definition publish ::
  "('d envelope \<Rightarrow> error + string) \<Rightarrow>
   (string \<Rightarrow> string \<Rightarrow> string \<Rightarrow> 'w \<Rightarrow> (error + bool) \<times> 'w) \<Rightarrow>
   bus \<Rightarrow> 'd envelope \<Rightarrow> 'w \<Rightarrow> (error + unit) \<times> 'w \<times> 'd envelope effect list"
where
  "publish stringify chan_publish b event w =
     (if channel b = None then (Inl ChannelNotInitialized, w, [])
      else
        (case stringify event of
           Inl err \<Rightarrow> (Inl err, w, [Log Error ''Failed to publish event''])
         | Inr message \<Rightarrow>
             (let routingKey = ev_entity event @ ''.'' @ ev_type event;
                  hdrs = [(''x-event-id'', ev_id event),
                          (''x-correlation-id'', correlationId (ev_metadata event))]
              in case chan_publish MAIN_EXCHANGE routingKey message w of
                   (Inl err, w') \<Rightarrow>
                     (Inl err, w',
                      [Send MAIN_EXCHANGE routingKey message hdrs,
                       Log Error ''Failed to publish event''])
                 | (Inr ok, w') \<Rightarrow>
                     (Inr (), w',
                      [Send MAIN_EXCHANGE routingKey message hdrs] @
                      (if \<not> ok then [Log Warn ''Publisher backpressure detected''] else []) @
                      [Log Debug ''Event published'']))))"

text \<open>\<^verbatim>\<open>RabbitMQCommandBus.publish\<close>: a \<^verbatim>\<open>false\<close> from \<^verbatim>\<open>channel.publish\<close> is
  thrown as an error.\<close>

definition cmd_publish ::
  "('d envelope \<Rightarrow> error + string) \<Rightarrow>
   (string \<Rightarrow> string \<Rightarrow> string \<Rightarrow> 'w \<Rightarrow> (error + bool) \<times> 'w) \<Rightarrow>
   bus \<Rightarrow> 'd envelope \<Rightarrow> 'w \<Rightarrow> (error + unit) \<times> 'w \<times> 'd envelope effect list"
where
  "cmd_publish stringify chan_publish b command w =
     (if channel b = None then (Inl ChannelNotInitialized, w, [])
      else
        (case stringify command of
           Inl err \<Rightarrow> (Inl err, w, [Log Error ''Failed to publish command''])
         | Inr message \<Rightarrow>
             (let routingKey = ev_entity command @ ''.'' @ ev_type command;
                  hdrs = [(''x-command-id'', ev_id command),
                          (''x-correlation-id'', correlationId (ev_metadata command)),
                          (''x-timestamp'', ev_timestamp command)]
              in case chan_publish CMD_MAIN_EXCHANGE routingKey message w of
                   (Inl err, w') \<Rightarrow>
                     (Inl err, w',
                      [Send CMD_MAIN_EXCHANGE routingKey message hdrs,
                       Log Error ''Failed to publish command''])
                 | (Inr ok, w') \<Rightarrow>
                     if \<not> ok then
                       (Inl PublishReturnedFalse, w',
                        [Send CMD_MAIN_EXCHANGE routingKey message hdrs,
                         Log Error ''Failed to publish command''])
                     else
                       (Inr (), w',
                        [Send CMD_MAIN_EXCHANGE routingKey message hdrs,
                         Log Debug ''Command published'']))))"


text \<open>Decimal digits of a count, as a template literal prints it.\<close>

fun show_nat :: "nat \<Rightarrow> string" where
  "show_nat n =
     (if n < 10 then [''0123456789'' ! n]
      else show_nat (n div 10) @ [''0123456789'' ! (n mod 10)])"

declare show_nat.simps [simp del]




fun is_send :: "'e effect \<Rightarrow> bool" where
  "is_send (Send x k m hdrs) = True"
| "is_send other = False"

definition sends :: "'e effect list \<Rightarrow> 'e effect list" where
  "sends effs = filter is_send effs"

section \<open>Registration: \<^verbatim>\<open>subscribe\<close> and \<^verbatim>\<open>unsubscribe\<close>\<close>






section \<open>Dead-letter sink: \<^verbatim>\<open>getDLQMessages\<close>\<close>

text \<open>
  The \<^verbatim>\<open>for (let i = 0; i < limit; i++)\<close> loop, with the number of iterations left as
  its counter. \<open>chan_get\<close> is \<^verbatim>\<open>channel.get(DLQ_QUEUE, {noAck: false})\<close>: it throws,
  returns \<^verbatim>\<open>false\<close> (queue empty) or returns a message.
\<close>

fun dlq_loop ::
  "('w \<Rightarrow> (error + delivery option) \<times> 'w) \<Rightarrow> (string \<Rightarrow> 'e json option) \<Rightarrow> nat \<Rightarrow>
   'e json list \<Rightarrow> 'w \<Rightarrow> (error + 'e json list) \<times> 'w \<times> 'e effect list"
where
  "dlq_loop chan_get parse 0 messages w = (Inr messages, w, [])"
| "dlq_loop chan_get parse (Suc n) messages w =
     (case chan_get w of
        (Inl err, w') \<Rightarrow> (Inl err, w', [])
      | (Inr None, w') \<Rightarrow> (Inr messages, w', [])
      | (Inr (Some msg), w') \<Rightarrow>
          (case parse (content msg) of
             Some event \<Rightarrow>
               (case dlq_loop chan_get parse n (messages @ [event]) w' of
                  (res, w'', effs) \<Rightarrow> (res, w'', Fetch msg # effs))
           | None \<Rightarrow>
               (case dlq_loop chan_get parse n messages w' of
                  (res, w'', effs) \<Rightarrow>
                    (res, w'', [Fetch msg, Log Warn ''Invalid message format in DLQ''] @ effs))))"

text \<open>
  \<^verbatim>\<open>getDLQMessages(limit = 10)\<close>. After the loop,
  \<^verbatim>\<open>messages.forEach(() => channel.nack(messages[0] as unknown as amqp.Message, false, true))\<close>
  calls \<^verbatim>\<open>nack\<close> once per parsed body, each time on the first parsed body.
\<close>

definition getDLQMessages ::
  "('w \<Rightarrow> (error + delivery option) \<times> 'w) \<Rightarrow> (string \<Rightarrow> 'e json option) \<Rightarrow> bus \<Rightarrow> int \<Rightarrow> 'w \<Rightarrow>
   (error + 'e json list) \<times> 'w \<times> 'e effect list"
where
  "getDLQMessages chan_get parse b limit w =
     (if channel b = None then (Inl ChannelNotInitialized, w, [])
      else
        (case dlq_loop chan_get parse (nat limit) [] w of
           (Inl err, w', effs) \<Rightarrow> (Inl err, w', effs)
         | (Inr messages, w', effs) \<Rightarrow>
             (Inr messages, w',
              effs @
              (case messages of
                 [] \<Rightarrow> []
               | first # rest \<Rightarrow> map (\<lambda>x. Nack (Parsed first) False True) messages))))"

fun fetched :: "'e effect list \<Rightarrow> delivery list" where
  "fetched [] = []"
| "fetched (Fetch m # effs) = m # fetched effs"
| "fetched (other # effs) = fetched effs"

fun settled :: "'e effect list \<Rightarrow> delivery list" where
  "settled [] = []"
| "settled (Ack m # effs) = m # settled effs"
| "settled (Nack (Fetched m) u q # effs) = m # settled effs"
| "settled (other # effs) = settled effs"

section \<open>Change-capture cursor service\<close>

text \<open>
  A row of \<^verbatim>\<open>audit.event_log\<close>, with the columns the service reads. The \<^verbatim>\<open>id\<close>
  column has type \<^verbatim>\<open>UUID\<close>; it is held in its canonical text form, on which the
  database's bytewise comparison of two identifiers is the lexicographic order of
  the texts.
\<close>

record log_row =
  row_id :: string
  event_type :: string
  entity_type :: string
  row_data :: string
  correlation_id :: "string option"

text \<open>\<^verbatim>\<open>audit.cdc_position\<close> has one row per \<^verbatim>\<open>table_name\<close> (a unique column) with
  a nullable text \<^verbatim>\<open>last_lsn\<close>.\<close>

record db =
  event_log :: "log_row list"
  cdc_position :: "string \<Rightarrow> string option option"

definition is_hex :: "char \<Rightarrow> bool" where
  "is_hex c = (c \<in> set ''0123456789abcdef'')"

definition is_uuid :: "string \<Rightarrow> bool" where
  "is_uuid s =
     (map (\<lambda>c. if c = CHR ''-'' then CHR ''-'' else if is_hex c then CHR ''x'' else CHR ''?'') s
        = ''xxxxxxxx-xxxx-xxxx-xxxx-xxxxxxxxxxxx'')"

text \<open>The calls on the database driver that can throw.\<close>

datatype db_call =
    PoolConnect
  | SelectPositions
  | SelectLog string string
  | UpsertPosition string string

text \<open>
  The collaborators of the service. \<open>e_db_fails\<close> says whether a database call
  throws; \<open>e_decode t\<close> is \<^verbatim>\<open>JSON.parse(row.data)\<close> followed by the field picks of
  the entity's payload (\<open>Inl\<close> when either throws); \<open>e_fresh\<close> supplies
  \<^verbatim>\<open>uuidv4()\<close> and \<^verbatim>\<open>new Date().toISOString()\<close>; the last two are the
  collaborators of \<open>publish\<close>.
\<close>

record ('d, 'w) cdc_env =
  e_db_fails :: "db_call \<Rightarrow> 'w \<Rightarrow> error option \<times> 'w"
  e_decode :: "string \<Rightarrow> string \<Rightarrow> error + 'd"
  e_fresh :: "'w \<Rightarrow> (string \<times> string) \<times> 'w"
  e_stringify :: "'d envelope \<Rightarrow> error + string"
  e_chan_publish :: "string \<Rightarrow> string \<Rightarrow> string \<Rightarrow> 'w \<Rightarrow> (error + bool) \<times> 'w"
  e_pollIntervalMs :: int

text \<open>\<^verbatim>\<open>row.last_lsn === '0' || !row.last_lsn ? '' : row.last_lsn\<close>\<close>

definition lsn_of :: "string option \<Rightarrow> string" where
  "lsn_of l = (case l of None \<Rightarrow> [] | Some s \<Rightarrow> if s = ''0'' \<or> s = [] then [] else s)"

text \<open>The \<^verbatim>\<open>positions\<close> map that \<^verbatim>\<open>checkForChanges\<close> fills from the table.\<close>

definition read_positions :: "db \<Rightarrow> string \<Rightarrow> string option" where
  "read_positions d t = map_option lsn_of (cdc_position d t)"

text \<open>\<^verbatim>\<open>positions.get(t) || ''\<close>\<close>

definition lastPosition_of :: "(string \<Rightarrow> string option) \<Rightarrow> string \<Rightarrow> string" where
  "lastPosition_of positions t = (case positions t of None \<Rightarrow> [] | Some s \<Rightarrow> s)"

text \<open>
  \<^verbatim>\<open>SELECT * FROM audit.event_log WHERE entity_type = $1 [AND id > $2::uuid] ORDER BY id ASC\<close>;
  the second condition is only added when \<^verbatim>\<open>lastPosition\<close> is not empty.
\<close>

definition select_log :: "db \<Rightarrow> string \<Rightarrow> string \<Rightarrow> log_row list" where
  "select_log d entity lastPosition =
     sort_key row_id
       (filter (\<lambda>r. entity_type r = entity \<and> (lastPosition = [] \<or> lastPosition < row_id r))
          (event_log d))"

text \<open>What distinguishes the three \<^verbatim>\<open>process...Changes\<close> methods: the entity name
  and the event the factory creates.\<close>

record entity_spec =
  table :: string
  created_type :: string

text \<open>\<^verbatim>\<open>criarClienteCriadoEvent\<close>, \<^verbatim>\<open>criarProdutoCriadoEvent\<close>,
  \<^verbatim>\<open>criarPedidoCriadoEvent\<close>.\<close>

definition criarEvent ::
  "entity_spec \<Rightarrow> string \<times> string \<Rightarrow> 'd \<Rightarrow> string \<Rightarrow> string \<Rightarrow> 'd envelope"
where
  "criarEvent spec stamp payload corr src =
     \<lparr>ev_id = fst stamp, ev_type = created_type spec, ev_entity = table spec,
      ev_timestamp = snd stamp, ev_data = payload,
      ev_metadata = \<lparr>source = src, correlationId = corr, userId = None, tenantId = None,
                     version = 1\<rparr>\<rparr>"

text \<open>
  The \<^verbatim>\<open>for (const row of result.rows)\<close> loop. The first thing that throws ends the
  method with that error; the database keeps the cursor writes made so far.
\<close>

fun process_rows ::
  "('d, 'w) cdc_env \<Rightarrow> bus \<Rightarrow> entity_spec \<Rightarrow> log_row list \<Rightarrow> db \<Rightarrow> 'w \<Rightarrow>
   error option \<times> db \<times> 'w \<times> 'd envelope effect list"
where
  "process_rows env b spec [] d w = (None, d, w, [])"
| "process_rows env b spec (row # rows) d w =
     (if event_type row = ''INSERT'' then
        (case e_decode env (table spec) (row_data row) of
           Inl err \<Rightarrow> (Some err, d, w, [])
         | Inr payload \<Rightarrow>
             (case e_fresh env w of (stamp, w1) \<Rightarrow>
                (let event = criarEvent spec stamp payload
                               (case correlation_id row of None \<Rightarrow> [] | Some c \<Rightarrow> c) ''cdc''
                 in case publish (e_stringify env) (e_chan_publish env) b event w1 of
                      (Inl err, w2, effs) \<Rightarrow> (Some err, d, w2, effs)
                    | (Inr u, w2, effs) \<Rightarrow>
                        (case e_db_fails env (UpsertPosition (table spec) (row_id row)) w2 of
                           (Some err, w3) \<Rightarrow> (Some err, d, w3, effs)
                         | (None, w3) \<Rightarrow>
                             (case process_rows env b spec rows
                                     (d\<lparr>cdc_position :=
                                          (cdc_position d)(table spec \<mapsto> Some (row_id row))\<rparr>) w3 of
                                (res, d', w4, effs') \<Rightarrow>
                                  (res, d', w4,
                                   effs @
                                   [SetPosition (table spec) (row_id row),
                                    Log Debug (table spec @ '' event published'')] @ effs'))))))
      else process_rows env b spec rows d w)"

definition processChanges ::
  "entity_spec \<Rightarrow> ('d, 'w) cdc_env \<Rightarrow> bus \<Rightarrow> (string \<Rightarrow> string option) \<Rightarrow> db \<Rightarrow> 'w \<Rightarrow>
   error option \<times> db \<times> 'w \<times> 'd envelope effect list"
where
  "processChanges spec env b positions d w =
     (let lastPosition = lastPosition_of positions (table spec)
      in case e_db_fails env (SelectLog (table spec) lastPosition) w of
           (Some err, w') \<Rightarrow> (Some err, d, w', [])
         | (None, w') \<Rightarrow>
             process_rows env b spec (select_log d (table spec) lastPosition) d w')"

definition Cliente :: entity_spec where
  "Cliente = \<lparr>table = ''Cliente'', created_type = ''ClienteCriado''\<rparr>"

definition Produto :: entity_spec where
  "Produto = \<lparr>table = ''Produto'', created_type = ''ProdutoCriado''\<rparr>"

definition Pedido :: entity_spec where
  "Pedido = \<lparr>table = ''Pedido'', created_type = ''PedidoCriado''\<rparr>"

definition processClienteChanges ::
  "('d, 'w) cdc_env \<Rightarrow> bus \<Rightarrow> (string \<Rightarrow> string option) \<Rightarrow> db \<Rightarrow> 'w \<Rightarrow>
   error option \<times> db \<times> 'w \<times> 'd envelope effect list"
where
  "processClienteChanges = processChanges Cliente"

definition processProdutoChanges ::
  "('d, 'w) cdc_env \<Rightarrow> bus \<Rightarrow> (string \<Rightarrow> string option) \<Rightarrow> db \<Rightarrow> 'w \<Rightarrow>
   error option \<times> db \<times> 'w \<times> 'd envelope effect list"
where
  "processProdutoChanges = processChanges Produto"

definition processPedidoChanges ::
  "('d, 'w) cdc_env \<Rightarrow> bus \<Rightarrow> (string \<Rightarrow> string option) \<Rightarrow> db \<Rightarrow> 'w \<Rightarrow>
   error option \<times> db \<times> 'w \<times> 'd envelope effect list"
where
  "processPedidoChanges = processChanges Pedido"

text \<open>
  \<^verbatim>\<open>checkForChanges\<close>: one scan cycle. The three methods are awaited one after the
  other inside a single \<^verbatim>\<open>try ... finally\<close>, so the first error leaves the method,
  after \<^verbatim>\<open>client.release()\<close>.
\<close>

definition checkForChanges ::
  "('d, 'w) cdc_env \<Rightarrow> bus \<Rightarrow> db \<Rightarrow> 'w \<Rightarrow> error option \<times> db \<times> 'w \<times> 'd envelope effect list"
where
  "checkForChanges env b d w =
     (case e_db_fails env PoolConnect w of
        (Some err, w0) \<Rightarrow> (Some err, d, w0, [])
      | (None, w0) \<Rightarrow>
          (case e_db_fails env SelectPositions w0 of
             (Some err, w1) \<Rightarrow> (Some err, d, w1, [ReleaseClient])
           | (None, w1) \<Rightarrow>
               (let positions = read_positions d
                in case processClienteChanges env b positions d w1 of
                     (Some err, d1, w2, effs1) \<Rightarrow> (Some err, d1, w2, effs1 @ [ReleaseClient])
                   | (None, d1, w2, effs1) \<Rightarrow>
                       (case processProdutoChanges env b positions d1 w2 of
                          (Some err, d2, w3, effs2) \<Rightarrow>
                            (Some err, d2, w3, effs1 @ effs2 @ [ReleaseClient])
                        | (None, d2, w3, effs2) \<Rightarrow>
                            (case processPedidoChanges env b positions d2 w3 of
                               (res, d3, w4, effs3) \<Rightarrow>
                                 (res, d3, w4, effs1 @ effs2 @ effs3 @ [ReleaseClient]))))))"

text \<open>One iteration of the \<^verbatim>\<open>while (this.isRunning)\<close> loop of \<^verbatim>\<open>poll\<close>.\<close>

definition poll_tick ::
  "('d, 'w) cdc_env \<Rightarrow> bus \<Rightarrow> db \<Rightarrow> 'w \<Rightarrow> db \<times> 'w \<times> 'd envelope effect list"
where
  "poll_tick env b d w =
     (case checkForChanges env b d w of
        (Some err, d', w', effs) \<Rightarrow>
          (d', w', effs @ [Log Error ''Error checking for changes'', Sleep (e_pollIntervalMs env)])
      | (None, d', w', effs) \<Rightarrow> (d', w', effs @ [Sleep (e_pollIntervalMs env)]))"

text \<open>\<^verbatim>\<open>poll\<close>, for a run in which \<^verbatim>\<open>stop()\<close> clears \<^verbatim>\<open>isRunning\<close> during the
  \<open>n\<close>-th iteration.\<close>

fun poll ::
  "nat \<Rightarrow> ('d, 'w) cdc_env \<Rightarrow> bus \<Rightarrow> db \<Rightarrow> 'w \<Rightarrow> db \<times> 'w \<times> 'd envelope effect list"
where
  "poll 0 env b d w = (d, w, [])"
| "poll (Suc n) env b d w =
     (case poll_tick env b d w of
        (d', w', effs) \<Rightarrow>
          (case poll n env b d' w' of (d'', w'', effs') \<Rightarrow> (d'', w'', effs @ effs')))"

text \<open>The cursor of an entity type as the service reads it: \<^verbatim>\<open>lastPosition\<close>.\<close>

definition cursor :: "db \<Rightarrow> string \<Rightarrow> string" where
  "cursor d t = lastPosition_of (read_positions d) t"

fun positions_set :: "'e effect list \<Rightarrow> (string \<times> string) list" where
  "positions_set [] = []"
| "positions_set (SetPosition t i # effs) = (t, i) # positions_set effs"
| "positions_set (other # effs) = positions_set effs"

section \<open>Further observations and example collaborators\<close>


text \<open>A bus after a successful \<^verbatim>\<open>connect\<close>, and an envelope, for the examples.\<close>

definition connected_bus :: bus where
  "connected_bus = after_attempt (Established 1 1) (new_bus (mk_config None None None))"

definition example_event :: "string \<Rightarrow> string envelope" where
  "example_event payload =
     \<lparr>ev_id = ''7c9e6679-7425-40de-944b-e07fc1f90ae7'', ev_type = ''ClienteCriado'',
      ev_entity = ''Cliente'', ev_timestamp = ''2024-01-01T00:00:00.000Z'', ev_data = payload,
      ev_metadata = \<lparr>source = ''api'', correlationId = ''c0a80101-0000-4000-8000-000000000001'',
                     userId = None, tenantId = None, version = 1\<rparr>\<rparr>"

text \<open>The routing key \<^verbatim>\<open>`${event.entity}.${event.type}`\<close>.\<close>

definition routing_key :: "'d envelope \<Rightarrow> string" where
  "routing_key event = ev_entity event @ ''.'' @ ev_type event"

text \<open>\<^verbatim>\<open>channel.get\<close> on a queue held as the list of its ready messages: the head is
  handed out and is no longer ready.\<close>

definition get_ready :: "delivery list \<Rightarrow> (error + delivery option) \<times> delivery list" where
  "get_ready ready = (case ready of [] \<Rightarrow> (Inr None, []) | m # ms \<Rightarrow> (Inr (Some m), ms))"


fun is_position :: "'e effect \<Rightarrow> bool" where
  "is_position (SetPosition t i) = True"
| "is_position other = False"

text \<open>
  Every cursor write in an effect list comes directly after the line that
  \<^verbatim>\<open>publish\<close> logs as its last statement when it succeeds. The first argument is
  the effect before the list, if any.
\<close>

fun follows_publish :: "'e effect option \<Rightarrow> 'e effect list \<Rightarrow> bool" where
  "follows_publish prev [] = True"
| "follows_publish prev (x # effs) =
     ((is_position x \<longrightarrow> prev = Some (Log Debug ''Event published'')) \<and>
      follows_publish (Some x) effs)"

text \<open>The cursor table after the writes of an effect list, in order.\<close>

definition apply_positions ::
  "(string \<times> string) list \<Rightarrow> (string \<Rightarrow> string option option) \<Rightarrow> string \<Rightarrow> string option option"
where
  "apply_positions ps m = foldl (\<lambda>m p. m(fst p \<mapsto> Some (snd p))) m ps"

text \<open>Collaborators that never fail, for the examples: the store is a counter from
  which event identifiers are drawn.\<close>

definition example_env :: "(string, nat) cdc_env" where
  "example_env =
     \<lparr>e_db_fails = (\<lambda>c n. (None, n)),
      e_decode = (\<lambda>t s. if s = ''not json'' then Inl (Thrown ''Unexpected token'') else Inr s),
      e_fresh = (\<lambda>n. ((''event-'' @ show_nat n, ''2024-01-01T00:00:00.000Z''), Suc n)),
      e_stringify = (\<lambda>e. Inr (ev_data e)),
      e_chan_publish = (\<lambda>x k m n. (Inr True, n)),
      e_pollIntervalMs = 5000\<rparr>"

definition example_row :: "string \<Rightarrow> string \<Rightarrow> string \<Rightarrow> log_row" where
  "example_row i ty ent =
     \<lparr>row_id = i, event_type = ty, entity_type = ent, row_data = ''{}'',
      correlation_id = Some ''c0a80101-0000-4000-8000-000000000001''\<rparr>"

text \<open>The handler throws on each of the next \<open>n\<close> invocations, starting in state
  \<open>w\<close> and going on in the state each invocation leaves.\<close>

fun failing_attempts :: "('e, 'w) handler \<Rightarrow> 'e \<Rightarrow> nat \<Rightarrow> 'w \<Rightarrow> bool" where
  "failing_attempts h ev 0 w = True"
| "failing_attempts h ev (Suc n) w =
     (case handle h ev w of
        (None, w') \<Rightarrow> False
      | (Some err, w') \<Rightarrow> failing_attempts h ev n w')"

text \<open>The number of invocations \<^verbatim>\<open>handleWithRetry\<close> has left when it is entered with
  attempt counter \<open>a\<close>: the first one is unconditional.\<close>

definition attempts_left :: "config \<Rightarrow> nat \<Rightarrow> nat" where
  "attempts_left cfg a = nat (max 1 (maxRetries cfg - int a + 1))"

text \<open>
  The outcomes of the passes through the \<^verbatim>\<open>try\<close> block that a budget of \<open>n\<close>
  attempts allows, up to and including the first pass that succeeds, and the store
  after the last of them.
\<close>

fun dials :: "('w \<Rightarrow> attempt_outcome \<times> 'w) \<Rightarrow> nat \<Rightarrow> 'w \<Rightarrow> attempt_outcome list \<times> 'w" where
  "dials dial 0 w = ([], w)"
| "dials dial (Suc n) w =
     (case dial w of (out, w') \<Rightarrow>
        if is_established out then ([out], w')
        else (case dials dial n w' of (outs, w'') \<Rightarrow> (out # outs, w'')))"

text \<open>The tables of the three tracked entity types.\<close>

definition tracked :: "entity_spec list" where
  "tracked = [Cliente, Produto, Pedido]"

text \<open>Example logs and collaborators: two new \<^verbatim>\<open>Cliente\<close> rows and no cursor yet; a
  channel that throws from its second use on; a log with a cursor, holding a row
  below the cursor, an \<^verbatim>\<open>UPDATE\<close> row, an \<^verbatim>\<open>INSERT\<close> row, an \<^verbatim>\<open>INSERT\<close> row whose
  data does not parse, and a row of another entity type; a log with a cursor and
  three \<^verbatim>\<open>INSERT\<close> rows, one of them at the cursor.\<close>

definition two_inserts :: db where
  "two_inserts =
     \<lparr>event_log = [example_row ''00000000-0000-4000-8000-00000000000b'' ''INSERT'' ''Cliente'',
                   example_row ''00000000-0000-4000-8000-00000000000a'' ''INSERT'' ''Cliente''],
      cdc_position = (\<lambda>t. None)\<rparr>"

definition closing_env :: "(string, nat) cdc_env" where
  "closing_env =
     example_env\<lparr>e_chan_publish :=
       (\<lambda>x k m n. if n < 2 then (Inr True, n) else (Inl (Thrown ''Channel closed''), n))\<rparr>"

definition mixed_log :: db where
  "mixed_log =
     \<lparr>event_log =
        [(example_row ''00000000-0000-4000-8000-00000000000d'' ''INSERT'' ''Cliente'')
           \<lparr>row_data := ''not json''\<rparr>,
         example_row ''00000000-0000-4000-8000-00000000000c'' ''INSERT'' ''Cliente'',
         example_row ''00000000-0000-4000-8000-00000000000e'' ''INSERT'' ''Produto'',
         example_row ''00000000-0000-4000-8000-00000000000b'' ''UPDATE'' ''Cliente'',
         example_row ''00000000-0000-4000-8000-00000000000a'' ''INSERT'' ''Cliente''],
      cdc_position = (\<lambda>t. None)(''Cliente'' \<mapsto> Some ''00000000-0000-4000-8000-00000000000a'')\<rparr>"

definition three_clientes :: db where
  "three_clientes =
     \<lparr>event_log = [example_row ''00000000-0000-4000-8000-00000000000c'' ''INSERT'' ''Cliente'',
                   example_row ''00000000-0000-4000-8000-00000000000a'' ''INSERT'' ''Cliente'',
                   example_row ''00000000-0000-4000-8000-00000000000b'' ''INSERT'' ''Cliente''],
      cdc_position = (\<lambda>t. None)(''Cliente'' \<mapsto> Some ''00000000-0000-4000-8000-00000000000a'')\<rparr>"

section \<open>The dispatcher settles every delivery once\<close>

lemma hwr_success:
  "handle h ev w = (None, w') \<Longrightarrow> handleWithRetry cfg h r ev a w = (None, w', [Invoke r ev])"
  by (subst handleWithRetry.simps) simp

lemma hwr_retry:
  "handle h ev w = (Some e, w') \<Longrightarrow> int a < maxRetries cfg \<Longrightarrow>
   handleWithRetry cfg h r ev a w =
     (case handleWithRetry cfg h r ev (a + 1) w' of
        (res, w'', effs) \<Rightarrow>
          (res, w'',
           [Invoke r ev, Log Warn ''Handler failed, retrying'',
            Sleep (retryDelayMs cfg * 2 ^ (a - 1))] @ effs))"
  by (subst handleWithRetry.simps) simp

lemma hwr_give_up:
  "handle h ev w = (Some e, w') \<Longrightarrow> \<not> int a < maxRetries cfg \<Longrightarrow>
   handleWithRetry cfg h r ev a w =
     (Some e, w', [Invoke r ev, Log Error ''Handler failed after all retries''])"
  by (subst handleWithRetry.simps) simp

lemma hwr_no_settle:
  "handleWithRetry cfg h r ev a w = (res, w', effs) \<Longrightarrow>
   filter is_ack effs = [] \<and> filter is_nack effs = [] \<and> settled effs = []"
proof (induction cfg h r ev a w arbitrary: res w' effs rule: handleWithRetry.induct)
  case (1 cfg h r ev attempt w)
  obtain o1 w1 where h1: "handle h ev w = (o1, w1)" by (cases "handle h ev w")
  show ?case
  proof (cases o1)
    case None
    with h1 "1.prems" show ?thesis by (auto simp: hwr_success)
  next
    case (Some e)
    show ?thesis
    proof (cases "int attempt < maxRetries cfg")
      case True
      obtain res2 w2 effs2 where rec: "handleWithRetry cfg h r ev (attempt + 1) w1 = (res2, w2, effs2)"
        by (cases "handleWithRetry cfg h r ev (attempt + 1) w1")
      from "1.IH"[OF h1[symmetric] Some True rec] have "filter is_ack effs2 = [] \<and> filter is_nack effs2 = [] \<and> settled effs2 = []"
        by simp
      with h1 Some True rec "1.prems" show ?thesis by (auto simp: hwr_retry)
    next
      case False
      with h1 Some "1.prems" show ?thesis by (auto simp: hwr_give_up)
    qed
  qed
qed

lemma hwr_bound:
  "handleWithRetry cfg h r ev a w = (res, w', effs) \<Longrightarrow>
   int (length (filter is_invoke effs)) \<le> max 1 (maxRetries cfg - int a + 1)"
proof (induction cfg h r ev a w arbitrary: res w' effs rule: handleWithRetry.induct)
  case (1 cfg h r ev attempt w)
  obtain o1 w1 where h1: "handle h ev w = (o1, w1)" by (cases "handle h ev w")
  show ?case
  proof (cases o1)
    case None
    with h1 "1.prems" show ?thesis by (auto simp: hwr_success)
  next
    case (Some e)
    show ?thesis
    proof (cases "int attempt < maxRetries cfg")
      case True
      obtain res2 w2 effs2 where rec: "handleWithRetry cfg h r ev (attempt + 1) w1 = (res2, w2, effs2)"
        by (cases "handleWithRetry cfg h r ev (attempt + 1) w1")
      from "1.IH"[OF h1[symmetric] Some True rec]
      have "int (length (filter is_invoke effs2)) \<le> max 1 (maxRetries cfg - int (attempt + 1) + 1)"
        by simp
      with h1 Some True rec "1.prems" show ?thesis by (auto simp: hwr_retry)
    next
      case False
      with h1 Some "1.prems" show ?thesis by (auto simp: hwr_give_up)
    qed
  qed
qed

lemma hwr_total_bound:
  "1 \<le> maxRetries cfg \<Longrightarrow>
   int (invocations (snd (snd (handleWithRetry cfg h r e 1 w)))) \<le> maxRetries cfg"
proof -
  assume m: "1 \<le> maxRetries cfg"
  obtain res w' effs where "handleWithRetry cfg h r e 1 w = (res, w', effs)"
    by (cases "handleWithRetry cfg h r e 1 w")
  with hwr_bound[OF this] m show ?thesis by (simp add: invocations_def)
qed

lemma on_message_parsed:
  "parse (content m) = Some (JValue ev) \<Longrightarrow>
   handleWithRetry cfg (heap (c_handler c)) (c_handler c) ev 1 w = (res, w', effs) \<Longrightarrow>
   on_message cfg parse heap c (Some m) w =
     (w', [Log Debug ''Processing event''] @ effs @
          (if res = None then [Ack m, Log Debug ''Event processed successfully'']
           else [Log Error ''Error processing event'', Nack (Fetched m) False False]))"
  by (cases res) (simp_all add: on_message_def)

lemma on_message_unparsed:
  "parse (content m) = None \<or> parse (content m) = Some JNull \<Longrightarrow>
   on_message cfg parse heap c (Some m) w =
     (w, [Log Error ''Error processing event'', Nack (Fetched m) False False])"
  by (auto simp: on_message_def)

lemma settled_append: "settled (xs @ ys) = settled xs @ settled ys"
  by (induction xs rule: settled.induct) simp_all

text \<open>
  C2. A delivery whose handler throws on its first and second invocation and resolves
  on the third is handled by exactly three invocations, with a wait of
  \<^verbatim>\<open>retryDelayMs * 2^(attempt - 1)\<close> after attempts 1 and 2, and is acknowledged once
  and never negatively acknowledged. \<^verbatim>\<open>maxRetries\<close> bounds the number of invocations
  of any delivery, and its default is 3.
\<close>

theorem retry_twice_then_ack:
  assumes "handle (heap (c_handler c)) ev w0 = (Some e1, w1)"
      and "handle (heap (c_handler c)) ev w1 = (Some e2, w2)"
      and "handle (heap (c_handler c)) ev w2 = (None, w3)"
      and "3 \<le> maxRetries cfg"
      and "parse (content m) = Some (JValue ev)"
  shows "on_message cfg parse heap c (Some m) w0 =
           (w3, [Log Debug ''Processing event'',
                 Invoke (c_handler c) ev, Log Warn ''Handler failed, retrying'',
                 Sleep (retryDelayMs cfg * 2 ^ (1 - 1)),
                 Invoke (c_handler c) ev, Log Warn ''Handler failed, retrying'',
                 Sleep (retryDelayMs cfg * 2 ^ (2 - 1)),
                 Invoke (c_handler c) ev,
                 Ack m, Log Debug ''Event processed successfully'']) \<and>
         invocations (snd (on_message cfg parse heap c (Some m) w0)) = 3 \<and>
         acks (snd (on_message cfg parse heap c (Some m) w0)) = [Ack m] \<and>
         nacks (snd (on_message cfg parse heap c (Some m) w0)) = [] \<and>
         (\<forall>h r e w. int (invocations (snd (snd (handleWithRetry cfg h r e 1 w)))) \<le> maxRetries cfg) \<and>
         maxRetries (mk_config p None d) = 3"
proof -
  let ?h = "heap (c_handler c)" and ?r = "c_handler c"
  have s3: "handleWithRetry cfg ?h ?r ev (Suc (Suc (Suc 0))) w2 = (None, w3, [Invoke ?r ev])"
    using assms(3) by (rule hwr_success)
  have s2: "handleWithRetry cfg ?h ?r ev (Suc (Suc 0)) w1 =
              (None, w3, [Invoke ?r ev, Log Warn ''Handler failed, retrying'',
                          Sleep (retryDelayMs cfg * 2 ^ (2 - 1)), Invoke ?r ev])"
    using hwr_retry[OF assms(2), of "Suc (Suc 0)" cfg ?r] assms(4) s3 by simp
  have s1: "handleWithRetry cfg ?h ?r ev 1 w0 =
              (None, w3, [Invoke ?r ev, Log Warn ''Handler failed, retrying'',
                          Sleep (retryDelayMs cfg * 2 ^ (1 - 1)),
                          Invoke ?r ev, Log Warn ''Handler failed, retrying'',
                          Sleep (retryDelayMs cfg * 2 ^ (2 - 1)), Invoke ?r ev])"
    using hwr_retry[OF assms(1), of "Suc 0" cfg ?r] assms(4) s2 by simp
  have run: "on_message cfg parse heap c (Some m) w0 =
           (w3, [Log Debug ''Processing event'',
                 Invoke (c_handler c) ev, Log Warn ''Handler failed, retrying'',
                 Sleep (retryDelayMs cfg * 2 ^ (1 - 1)),
                 Invoke (c_handler c) ev, Log Warn ''Handler failed, retrying'',
                 Sleep (retryDelayMs cfg * 2 ^ (2 - 1)),
                 Invoke (c_handler c) ev,
                 Ack m, Log Debug ''Event processed successfully''])"
    using on_message_parsed[where heap = heap and c = c and parse = parse and m = m, OF assms(5) s1] by simp
  have bound: "1 \<le> maxRetries cfg" using assms(4) by simp
  show ?thesis
    unfolding run
    by (intro conjI allI hwr_total_bound[OF bound])
       (simp_all add: invocations_def acks_def nacks_def mk_config_def or_default_def)
qed

theorem retry_twice_then_ack_witness:
  "on_message (mk_config None None None) (\<lambda>s. Some (JValue s))
     (\<lambda>r. \<lparr>entityType = ''Cliente'',
            handle = (\<lambda>ev n. (if n < 2 then Some (Thrown ''boom'') else None, Suc n))\<rparr>)
     \<lparr>c_queue = ''agentic.Cliente.ClienteCriado'', c_eventType = ''ClienteCriado'', c_handler = 7\<rparr>
     (Some \<lparr>deliveryTag = 1, content = ''{}''\<rparr>) (0 :: nat) =
   (3, [Log Debug ''Processing event'',
        Invoke 7 ''{}'', Log Warn ''Handler failed, retrying'', Sleep 5000,
        Invoke 7 ''{}'', Log Warn ''Handler failed, retrying'', Sleep 10000,
        Invoke 7 ''{}'',
        Ack \<lparr>deliveryTag = 1, content = ''{}''\<rparr>, Log Debug ''Event processed successfully''])"
  using retry_twice_then_ack
    [where heap = "\<lambda>r. \<lparr>entityType = ''Cliente'',
            handle = (\<lambda>ev n. (if n < 2 then Some (Thrown ''boom'') else None, Suc n))\<rparr>"
       and c = "\<lparr>c_queue = ''agentic.Cliente.ClienteCriado'', c_eventType = ''ClienteCriado'', c_handler = 7\<rparr>"
       and ev = "''{}''" and ?w0.0 = 0 and ?e1.0 = "Thrown ''boom''" and ?w1.0 = 1
       and ?e2.0 = "Thrown ''boom''" and ?w2.0 = 2 and ?w3.0 = 3
       and cfg = "mk_config None None None" and parse = "\<lambda>s. Some (JValue s)"
       and m = "\<lparr>deliveryTag = 1, content = ''{}''\<rparr>", THEN conjunct1]
  by (simp add: mk_config_def or_default_def)

lemma attempts_left_retry:
  "int a < maxRetries cfg \<Longrightarrow> attempts_left cfg a = Suc (attempts_left cfg (a + 1))"
  by (simp add: attempts_left_def)

lemma attempts_left_pos: "0 < attempts_left cfg a"
  by (simp add: attempts_left_def)

lemma attempts_left_last:
  "\<not> int a < maxRetries cfg \<Longrightarrow> attempts_left cfg a = 1"
  by (simp add: attempts_left_def)

lemma hwr_exhausted:
  "handleWithRetry cfg h r ev a w = (res, w', effs) \<Longrightarrow>
   failing_attempts h ev (attempts_left cfg a) w \<Longrightarrow>
   res \<noteq> None \<and> length (filter is_invoke effs) = attempts_left cfg a \<and>
   filter is_sleep effs =
     map (\<lambda>k. Sleep (retryDelayMs cfg * 2 ^ (k - 1))) [a..<a + attempts_left cfg a - 1]"
proof (induction cfg h r ev a w arbitrary: res w' effs rule: handleWithRetry.induct)
  case (1 cfg h r ev attempt w)
  obtain o1 w1 where h1: "handle h ev w = (o1, w1)" by (cases "handle h ev w")
  show ?case
  proof (cases "int attempt < maxRetries cfg")
    case True
    note left = attempts_left_retry[OF True]
    from "1.prems"(2) h1 left obtain e where
      Some: "o1 = Some e" and rest: "failing_attempts h ev (attempts_left cfg (attempt + 1)) w1"
      by (cases o1) auto
    obtain res2 w2 effs2 where
      rec: "handleWithRetry cfg h r ev (attempt + 1) w1 = (res2, w2, effs2)"
      by (metis prod_cases3)
    note ih = "1.IH"[OF h1[symmetric] Some True rec rest]
    have up: "[attempt..<attempt + Suc (attempts_left cfg (attempt + 1)) - 1] =
              attempt # [attempt + 1..<attempt + 1 + attempts_left cfg (attempt + 1) - 1]"
      using attempts_left_pos[of cfg "attempt + 1"] by (simp add: upt_conv_Cons)
    from h1 Some True rec "1.prems"(1) have
      "res = res2" and
      "effs = [Invoke r ev, Log Warn ''Handler failed, retrying'',
               Sleep (retryDelayMs cfg * 2 ^ (attempt - 1))] @ effs2"
      by (auto simp: hwr_retry)
    with ih show ?thesis unfolding left up by simp
  next
    case False
    note left = attempts_left_last[OF False]
    from "1.prems"(2) h1 left obtain e where Some: "o1 = Some e"
      by (cases o1) auto
    from h1 Some False "1.prems"(1) show ?thesis
      unfolding left by (auto simp: hwr_give_up)
  qed
qed

lemma hwr_resolves:
  "handleWithRetry cfg h r ev a w = (res, w', effs) \<Longrightarrow>
   \<not> failing_attempts h ev (attempts_left cfg a) w \<Longrightarrow> res = None"
proof (induction cfg h r ev a w arbitrary: res w' effs rule: handleWithRetry.induct)
  case (1 cfg h r ev attempt w)
  obtain o1 w1 where h1: "handle h ev w = (o1, w1)" by (cases "handle h ev w")
  show ?case
  proof (cases o1)
    case None
    with h1 "1.prems"(1) show ?thesis by (auto simp: hwr_success)
  next
    case (Some e)
    show ?thesis
    proof (cases "int attempt < maxRetries cfg")
      case True
      note left = attempts_left_retry[OF True]
      from "1.prems"(2) h1 Some left have
        rest: "\<not> failing_attempts h ev (attempts_left cfg (attempt + 1)) w1" by simp
      obtain res2 w2 effs2 where
        rec: "handleWithRetry cfg h r ev (attempt + 1) w1 = (res2, w2, effs2)"
        by (metis prod_cases3)
      from "1.IH"[OF h1[symmetric] Some True rec rest] h1 Some True rec "1.prems"(1)
      show ?thesis by (auto simp: hwr_retry)
    next
      case False
      from "1.prems"(2) h1 Some attempts_left_last[OF False] show ?thesis by simp
    qed
  qed
qed


lemma attempts_left_first: "attempts_left cfg 1 = nat (max 1 (maxRetries cfg))"
  by (simp add: attempts_left_def)

text \<open>
  C3. Every delivery handed to the consume callback is settled exactly once: the
  effects hold one \<^verbatim>\<open>ack\<close> or one \<^verbatim>\<open>nack\<close>, never both, and it is for this
  delivery. A body that does not deserialize is negatively acknowledged without
  requeue at once, with no handler invocation and no wait. When the handler throws
  on each of the \<^verbatim>\<open>maxRetries\<close> invocations that are made (one invocation when
  \<^verbatim>\<open>maxRetries\<close> is less than 1), whatever it would do on a further one, it is
  invoked that many times, with the back-off waits in between, and the delivery is
  negatively acknowledged once, without requeue, and not acknowledged. When it
  resolves on one of them the delivery is acknowledged and not negatively
  acknowledged.
\<close>

theorem exactly_one_settlement:
  assumes "on_message cfg parse heap c (Some m) w = (w', effs)"
  shows "length (acks effs) + length (nacks effs) = 1 \<and>
         settled effs = [m] \<and>
         (nacks effs = [] \<or> nacks effs = [Nack (Fetched m) False False]) \<and>
         (parse (content m) = None \<or> parse (content m) = Some JNull \<longrightarrow>
            effs = [Log Error ''Error processing event'', Nack (Fetched m) False False] \<and>
            invocations effs = 0 \<and> sleeps effs = []) \<and>
         (\<forall>ev. parse (content m) = Some (JValue ev) \<and>
               failing_attempts (heap (c_handler c)) ev (nat (max 1 (maxRetries cfg))) w \<longrightarrow>
               invocations effs = nat (max 1 (maxRetries cfg)) \<and> acks effs = [] \<and>
               nacks effs = [Nack (Fetched m) False False] \<and>
               sleeps effs =
                 map (\<lambda>k. Sleep (retryDelayMs cfg * 2 ^ (k - 1)))
                   [1..<nat (max 1 (maxRetries cfg))]) \<and>
         (\<forall>ev. parse (content m) = Some (JValue ev) \<and>
               \<not> failing_attempts (heap (c_handler c)) ev (nat (max 1 (maxRetries cfg))) w \<longrightarrow>
               acks effs = [Ack m] \<and> nacks effs = [] \<and>
               invocations effs \<le> nat (max 1 (maxRetries cfg)))"
proof (cases "parse (content m) = None \<or> parse (content m) = Some JNull")
  case True
  from on_message_unparsed[of parse m cfg heap c w] True assms show ?thesis
    by (auto simp: acks_def nacks_def invocations_def sleeps_def)
next
  case False
  then obtain ev where p: "parse (content m) = Some (JValue ev)"
    by (cases "parse (content m)") (auto intro: json.exhaust)
  let ?n = "nat (max 1 (maxRetries cfg))"
  obtain res w2 effs2 where
    r: "handleWithRetry cfg (heap (c_handler c)) (c_handler c) ev 1 w = (res, w2, effs2)"
    by (cases "handleWithRetry cfg (heap (c_handler c)) (c_handler c) ev 1 w")
  note ns = hwr_no_settle[OF r]
  note run = on_message_parsed[where heap = heap and c = c and parse = parse and m = m, OF p r]
  have bound: "length (filter is_invoke effs2) \<le> ?n"
    using hwr_bound[OF r] by simp
  have general: "length (acks effs) + length (nacks effs) = 1 \<and> settled effs = [m] \<and>
         (nacks effs = [] \<or> nacks effs = [Nack (Fetched m) False False])"
    using run ns assms by (auto simp: acks_def nacks_def settled_append)
  have exhausted: "invocations effs = ?n \<and> acks effs = [] \<and>
               nacks effs = [Nack (Fetched m) False False] \<and>
               sleeps effs = map (\<lambda>k. Sleep (retryDelayMs cfg * 2 ^ (k - 1))) [1..<?n]"
    if "failing_attempts (heap (c_handler c)) ev ?n w"
  proof -
    from hwr_exhausted[OF r, unfolded attempts_left_first, OF that] have
      "res \<noteq> None" "length (filter is_invoke effs2) = ?n"
      "filter is_sleep effs2 = map (\<lambda>k. Sleep (retryDelayMs cfg * 2 ^ (k - 1))) [1..<?n]"
      by simp_all
    with run ns assms show ?thesis
      by (auto simp: acks_def nacks_def invocations_def sleeps_def)
  qed
  have resolved: "acks effs = [Ack m] \<and> nacks effs = [] \<and> invocations effs \<le> ?n"
    if "\<not> failing_attempts (heap (c_handler c)) ev ?n w"
  proof -
    from hwr_resolves[OF r, unfolded attempts_left_first, OF that] have "res = None" .
    with run ns assms bound show ?thesis
      by (auto simp: acks_def nacks_def invocations_def)
  qed
  from general p False exhausted resolved show ?thesis by auto
qed

theorem exactly_one_settlement_witness:
  "nacks [Log Error ''Error processing event'',
          Nack (Fetched \<lparr>deliveryTag = 1, content = ''{''\<rparr>) False False :: string effect] =
     [Nack (Fetched \<lparr>deliveryTag = 1, content = ''{''\<rparr>) False False] \<and>
   failing_attempts \<lparr>entityType = ''Cliente'',
        handle = (\<lambda>ev n. (if n < 3 then Some (Thrown ''boom'') else None, Suc n))\<rparr>
      ''{}'' 3 (0 :: nat) \<and>
   fst (handle \<lparr>entityType = ''Cliente'',
        handle = (\<lambda>ev n. (if n < 3 then Some (Thrown ''boom'') else None, Suc n))\<rparr>
      ''{}'' (3 :: nat)) = None \<and>
   invocations (snd (on_message (mk_config None None None)
     (\<lambda>s. if s = ''{}'' then Some (JValue s) else None)
     (\<lambda>r. \<lparr>entityType = ''Cliente'',
            handle = (\<lambda>ev n. (if n < 3 then Some (Thrown ''boom'') else None, Suc n))\<rparr>)
     \<lparr>c_queue = ''agentic.Cliente.ClienteCriado'', c_eventType = ''ClienteCriado'', c_handler = 7\<rparr>
     (Some \<lparr>deliveryTag = 2, content = ''{}''\<rparr>) (0 :: nat))) = 3 \<and>
   nacks (snd (on_message (mk_config None None None)
     (\<lambda>s. if s = ''{}'' then Some (JValue s) else None)
     (\<lambda>r. \<lparr>entityType = ''Cliente'',
            handle = (\<lambda>ev n. (if n < 3 then Some (Thrown ''boom'') else None, Suc n))\<rparr>)
     \<lparr>c_queue = ''agentic.Cliente.ClienteCriado'', c_eventType = ''ClienteCriado'', c_handler = 7\<rparr>
     (Some \<lparr>deliveryTag = 2, content = ''{}''\<rparr>) (0 :: nat))) =
     [Nack (Fetched \<lparr>deliveryTag = 2, content = ''{}''\<rparr>) False False] \<and>
   sleeps (snd (on_message (mk_config None None None)
     (\<lambda>s. if s = ''{}'' then Some (JValue s) else None)
     (\<lambda>r. \<lparr>entityType = ''Cliente'',
            handle = (\<lambda>ev n. (if n < 3 then Some (Thrown ''boom'') else None, Suc n))\<rparr>)
     \<lparr>c_queue = ''agentic.Cliente.ClienteCriado'', c_eventType = ''ClienteCriado'', c_handler = 7\<rparr>
     (Some \<lparr>deliveryTag = 2, content = ''{}''\<rparr>) (0 :: nat))) = [Sleep 5000, Sleep 10000]"
  using exactly_one_settlement
    [where cfg = "mk_config None None None"
       and parse = "\<lambda>s. if s = ''{}'' then Some (JValue s) else None"
       and heap = "\<lambda>r. \<lparr>entityType = ''Cliente'',
            handle = (\<lambda>ev n. (if n < 3 then Some (Thrown ''boom'') else None, Suc n))\<rparr>"
       and c = "\<lparr>c_queue = ''agentic.Cliente.ClienteCriado'', c_eventType = ''ClienteCriado'', c_handler = 7\<rparr>"
       and m = "\<lparr>deliveryTag = 1, content = ''{''\<rparr>" and w = "0 :: nat" and w' = 0
       and effs = "[Log Error ''Error processing event'',
                    Nack (Fetched \<lparr>deliveryTag = 1, content = ''{''\<rparr>) False False]"]
    exactly_one_settlement
    [where cfg = "mk_config None None None"
       and parse = "\<lambda>s. if s = ''{}'' then Some (JValue s) else None"
       and heap = "\<lambda>r. \<lparr>entityType = ''Cliente'',
            handle = (\<lambda>ev n. (if n < 3 then Some (Thrown ''boom'') else None, Suc n))\<rparr>"
       and c = "\<lparr>c_queue = ''agentic.Cliente.ClienteCriado'', c_eventType = ''ClienteCriado'', c_handler = 7\<rparr>"
       and m = "\<lparr>deliveryTag = 2, content = ''{}''\<rparr>" and w = "0 :: nat", OF surjective_pairing]
  by (simp add: mk_config_def or_default_def on_message_def handleWithRetry.simps
                acks_def nacks_def invocations_def sleeps_def eval_nat_numeral)

section \<open>Reconnect backoff\<close>

lemma connect_loop_dials:
  "retries < 5 \<Longrightarrow> dials dial (5 - retries) w = (outs, wz) \<Longrightarrow>
   connect_loop dial retries b w = (res, b', w', effs :: 'e effect list) \<Longrightarrow>
   w' = wz \<and> outs \<noteq> [] \<and> length outs \<le> 5 - retries \<and>
   attempts effs = length outs \<and>
   b' = foldl (\<lambda>s out. after_attempt out s) b outs \<and>
   res = (if is_established (last outs) then Inr () else Inl ConnectFailed) \<and>
   (\<not> is_established (last outs) \<longrightarrow> length outs = 5 - retries) \<and>
   (\<forall>out \<in> set (butlast outs). \<not> is_established out) \<and>
   sleeps effs = map (\<lambda>k. Sleep (min (1000 * 2 ^ k) 30000)) [Suc retries..<retries + length outs]"
proof (induction dial retries b w arbitrary: outs wz res b' w' effs rule: connect_loop.induct)
  case (1 dial retries b w)
  obtain out w1 where d: "dial w = (out, w1)" by (cases "dial w")
  from "1.prems"(1) obtain n where n: "5 - retries = Suc n" by (cases "5 - retries") auto
  show ?case
  proof (cases "is_established out")
    case True
    with "1.prems"(2) d n have "outs = [out]" "wz = w1" by auto
    moreover from "1.prems"(1,3) d True have
      "res = Inr ()" "b' = after_attempt out b" "w' = w1"
      "effs = [Log Info ''Connecting to RabbitMQ...'', Log Info ''Connected to RabbitMQ'']"
      by (subst (asm) connect_loop.simps, simp)+
    ultimately show ?thesis using True "1.prems"(1) by (simp add: attempts_def sleeps_def)
  next
    case False
    obtain outs2 wz2 where d2: "dials dial n w1 = (outs2, wz2)" by (metis prod.exhaust)
    with "1.prems"(2) d n False have o: "outs = out # outs2" "wz = wz2" by auto
    show ?thesis
    proof (cases "Suc retries \<ge> 5")
      case True
      with "1.prems"(1) n have "n = 0" by simp
      with d2 have "outs2 = []" "wz2 = w1" by auto
      moreover from "1.prems"(1,3) d False True have
        "res = Inl ConnectFailed" "b' = after_attempt out b" "w' = w1"
        "effs = [Log Info ''Connecting to RabbitMQ...'',
                 Log Warn ''RabbitMQ connection failed, retrying'']"
        by (subst (asm) connect_loop.simps, simp add: Let_def)+
      ultimately show ?thesis using o False True "1.prems"(1)
        by (auto simp: attempts_def sleeps_def)
    next
      case more: False
      obtain res2 b2 w2 and effs2 :: "'e effect list" where
        rec: "connect_loop dial (Suc retries) (after_attempt out b) w1 = (res2, b2, w2, effs2)"
        by (metis prod_cases4)
      from n have n': "5 - Suc retries = n" by simp
      have ih: "w2 = wz2 \<and> outs2 \<noteq> [] \<and> length outs2 \<le> 5 - Suc retries \<and>
                attempts effs2 = length outs2 \<and>
                b2 = foldl (\<lambda>s out. after_attempt out s) (after_attempt out b) outs2 \<and>
                res2 = (if is_established (last outs2) then Inr () else Inl ConnectFailed) \<and>
                (\<not> is_established (last outs2) \<longrightarrow> length outs2 = 5 - Suc retries) \<and>
                (\<forall>out \<in> set (butlast outs2). \<not> is_established out) \<and>
                sleeps effs2 = map (\<lambda>k. Sleep (min (1000 * 2 ^ k) 30000))
                                 [Suc (Suc retries)..<Suc retries + length outs2]"
        using "1.IH"[OF "1.prems"(1) d[symmetric] False refl refl, of outs2 wz2 res2 b2 w2 effs2]
              more d2 rec n' by simp
      from "1.prems"(1,3) d False more rec have
        "res = res2" "b' = b2" "w' = w2"
        "effs = [Log Info ''Connecting to RabbitMQ...'',
                 Log Warn ''RabbitMQ connection failed, retrying'',
                 Sleep (min (1000 * 2 ^ Suc retries) 30000)] @ effs2"
        by (subst (asm) connect_loop.simps, simp add: Let_def)+
      moreover have up: "[Suc retries..<retries + length outs] =
                  Suc retries # [Suc (Suc retries)..<Suc retries + length outs2]"
      proof -
        from ih have "0 < length outs2" by simp
        then have lt: "Suc retries < Suc retries + length outs2" by simp
        have eq: "retries + length outs = Suc retries + length outs2" using o by simp
        show ?thesis unfolding eq by (rule upt_conv_Cons[OF lt])
      qed
      ultimately show ?thesis using ih o False more
        unfolding up by (simp add: attempts_def sleeps_def) arith
    qed
  qed
qed


text \<open>
  C4, as amended. \<^verbatim>\<open>connect\<close> on a bus that is already connected does nothing. On
  any other bus it makes the attempts that a budget of five allows and no more: it
  stops at the first attempt that succeeds, and it waits
  \<^verbatim>\<open>min(1000 * 2^k, 30000)\<close> ms after the \<open>k\<close>-th failed attempt and before the next
  one, that is 2 s, 4 s, 8 s and 16 s. When the fifth attempt fails too it raises
  the fatal error without a further wait or attempt.
\<close>

theorem connect_backoff:
  assumes "dials dial 5 w = (outs, wz)"
      and "connect dial b w = (res, b', w', effs :: 'e effect list)"
  shows "(isConnected b \<and> connection b \<noteq> None \<longrightarrow>
            res = Inr () \<and> b' = b \<and> w' = w \<and> attempts effs = 0 \<and> sleeps effs = []) \<and>
         (\<not> (isConnected b \<and> connection b \<noteq> None) \<longrightarrow>
            w' = wz \<and> attempts effs = length outs \<and> 1 \<le> length outs \<and> length outs \<le> 5 \<and>
            (\<forall>out \<in> set (butlast outs). \<not> is_established out) \<and>
            b' = foldl (\<lambda>s out. after_attempt out s) b outs \<and>
            res = (if is_established (last outs) then Inr () else Inl ConnectFailed) \<and>
            (\<not> is_established (last outs) \<longrightarrow> length outs = 5) \<and>
            sleeps effs = map (\<lambda>k. Sleep (min (1000 * 2 ^ k) 30000)) [1..<length outs] \<and>
            (length outs = 5 \<longrightarrow>
               sleeps effs = [Sleep 2000, Sleep 4000, Sleep 8000, Sleep 16000]))"
proof (cases "isConnected b \<and> connection b \<noteq> None")
  case True
  with assms(2) show ?thesis by (auto simp: connect_def attempts_def sleeps_def)
next
  case False
  with assms(2) have loop: "connect_loop dial 0 b w = (res, b', w', effs)"
    by (auto simp: connect_def split: if_splits)
  have five: "dials dial (5 - 0) w = (outs, wz)" using assms(1) by simp
  note r = connect_loop_dials[OF _ five loop, simplified]
  have s5: "sleeps effs = [Sleep 2000, Sleep 4000, Sleep 8000, Sleep 16000]"
    if "length outs = 5"
    using r that by (simp add: upt_conv_Cons)
  have ne: "1 \<le> length outs" using r by (cases outs) simp_all
  from r s5 ne False show ?thesis by simp
qed


theorem connect_backoff_witness:
  "dials (\<lambda>n. (ConnectThrows, Suc n)) 5 (0 :: nat) =
     ([ConnectThrows, ConnectThrows, ConnectThrows, ConnectThrows, ConnectThrows], 5) \<and>
   connect (\<lambda>n. (ConnectThrows, Suc n)) (new_bus (mk_config None None None)) (0 :: nat) =
     (Inl ConnectFailed, new_bus (mk_config None None None), 5,
      ([Log Info ''Connecting to RabbitMQ...'', Log Warn ''RabbitMQ connection failed, retrying'',
       Sleep 2000,
       Log Info ''Connecting to RabbitMQ...'', Log Warn ''RabbitMQ connection failed, retrying'',
       Sleep 4000,
       Log Info ''Connecting to RabbitMQ...'', Log Warn ''RabbitMQ connection failed, retrying'',
       Sleep 8000,
       Log Info ''Connecting to RabbitMQ...'', Log Warn ''RabbitMQ connection failed, retrying'',
       Sleep 16000,
       Log Info ''Connecting to RabbitMQ...'', Log Warn ''RabbitMQ connection failed, retrying'']
       :: unit effect list)) \<and>
   dials (\<lambda>n. (if n < 2 then ConnectThrows else Established 1 1, Suc n)) 5 (0 :: nat) =
     ([ConnectThrows, ConnectThrows, Established 1 1], 3) \<and>
   connect (\<lambda>n. (if n < 2 then ConnectThrows else Established 1 1, Suc n))
      (new_bus (mk_config None None None)) (0 :: nat) =
     (Inr (), after_attempt (Established 1 1) (new_bus (mk_config None None None)), 3,
      ([Log Info ''Connecting to RabbitMQ...'', Log Warn ''RabbitMQ connection failed, retrying'',
       Sleep 2000,
       Log Info ''Connecting to RabbitMQ...'', Log Warn ''RabbitMQ connection failed, retrying'',
       Sleep 4000,
       Log Info ''Connecting to RabbitMQ...'', Log Info ''Connected to RabbitMQ'']
       :: unit effect list)) \<and>
   attempts ([Log Info ''Connecting to RabbitMQ...'', Log Warn ''RabbitMQ connection failed, retrying'',
       Sleep 2000,
       Log Info ''Connecting to RabbitMQ...'', Log Warn ''RabbitMQ connection failed, retrying'',
       Sleep 4000,
       Log Info ''Connecting to RabbitMQ...'', Log Info ''Connected to RabbitMQ'']
       :: unit effect list) = 3 \<and>
   sleeps ([Log Info ''Connecting to RabbitMQ...'', Log Warn ''RabbitMQ connection failed, retrying'',
       Sleep 2000,
       Log Info ''Connecting to RabbitMQ...'', Log Warn ''RabbitMQ connection failed, retrying'',
       Sleep 4000,
       Log Info ''Connecting to RabbitMQ...'', Log Info ''Connected to RabbitMQ'']
       :: unit effect list) = [Sleep 2000, Sleep 4000]"
proof -
  have d5: "dials (\<lambda>n. (ConnectThrows, Suc n)) 5 (0 :: nat) =
     ([ConnectThrows, ConnectThrows, ConnectThrows, ConnectThrows, ConnectThrows], 5)"
    by (simp add: eval_nat_numeral)
  have c5: "connect (\<lambda>n. (ConnectThrows, Suc n)) (new_bus (mk_config None None None)) (0 :: nat) =
     (Inl ConnectFailed, new_bus (mk_config None None None), 5,
      ([Log Info ''Connecting to RabbitMQ...'', Log Warn ''RabbitMQ connection failed, retrying'',
       Sleep 2000,
       Log Info ''Connecting to RabbitMQ...'', Log Warn ''RabbitMQ connection failed, retrying'',
       Sleep 4000,
       Log Info ''Connecting to RabbitMQ...'', Log Warn ''RabbitMQ connection failed, retrying'',
       Sleep 8000,
       Log Info ''Connecting to RabbitMQ...'', Log Warn ''RabbitMQ connection failed, retrying'',
       Sleep 16000,
       Log Info ''Connecting to RabbitMQ...'', Log Warn ''RabbitMQ connection failed, retrying'']
       :: unit effect list))"
    by (simp add: connect_def connect_loop.simps new_bus_def)
  have d3: "dials (\<lambda>n. (if n < 2 then ConnectThrows else Established 1 1, Suc n)) 5 (0 :: nat) =
     ([ConnectThrows, ConnectThrows, Established 1 1], 3)"
    by (simp add: eval_nat_numeral)
  have c3: "connect (\<lambda>n. (if n < 2 then ConnectThrows else Established 1 1, Suc n))
      (new_bus (mk_config None None None)) (0 :: nat) =
     (Inr (), after_attempt (Established 1 1) (new_bus (mk_config None None None)), 3,
      ([Log Info ''Connecting to RabbitMQ...'', Log Warn ''RabbitMQ connection failed, retrying'',
       Sleep 2000,
       Log Info ''Connecting to RabbitMQ...'', Log Warn ''RabbitMQ connection failed, retrying'',
       Sleep 4000,
       Log Info ''Connecting to RabbitMQ...'', Log Info ''Connected to RabbitMQ'']
       :: unit effect list))"
    by (simp add: connect_def connect_loop.simps new_bus_def)
  have nb: "\<not> (isConnected (new_bus (mk_config None None None)) \<and>
                connection (new_bus (mk_config None None None)) \<noteq> None)"
    by (simp add: new_bus_def)
  note r3 = connect_backoff[OF d3 c3, THEN conjunct2, THEN mp, OF nb]
  from r3 have a3: "attempts ([Log Info ''Connecting to RabbitMQ...'', Log Warn ''RabbitMQ connection failed, retrying'',
       Sleep 2000,
       Log Info ''Connecting to RabbitMQ...'', Log Warn ''RabbitMQ connection failed, retrying'',
       Sleep 4000,
       Log Info ''Connecting to RabbitMQ...'', Log Info ''Connected to RabbitMQ'']
       :: unit effect list) = length [ConnectThrows, ConnectThrows, Established 1 1]"
    by blast
  from r3 have s3: "sleeps ([Log Info ''Connecting to RabbitMQ...'', Log Warn ''RabbitMQ connection failed, retrying'',
       Sleep 2000,
       Log Info ''Connecting to RabbitMQ...'', Log Warn ''RabbitMQ connection failed, retrying'',
       Sleep 4000,
       Log Info ''Connecting to RabbitMQ...'', Log Info ''Connected to RabbitMQ'']
       :: unit effect list) =
      map (\<lambda>k. Sleep (min (1000 * 2 ^ k) 30000))
        [1..<length [ConnectThrows, ConnectThrows, Established 1 1]]"
    by blast
  from a3 s3 have "attempts ([Log Info ''Connecting to RabbitMQ...'', Log Warn ''RabbitMQ connection failed, retrying'',
       Sleep 2000,
       Log Info ''Connecting to RabbitMQ...'', Log Warn ''RabbitMQ connection failed, retrying'',
       Sleep 4000,
       Log Info ''Connecting to RabbitMQ...'', Log Info ''Connected to RabbitMQ'']
       :: unit effect list) = 3 \<and>
        sleeps ([Log Info ''Connecting to RabbitMQ...'', Log Warn ''RabbitMQ connection failed, retrying'',
       Sleep 2000,
       Log Info ''Connecting to RabbitMQ...'', Log Warn ''RabbitMQ connection failed, retrying'',
       Sleep 4000,
       Log Info ''Connecting to RabbitMQ...'', Log Info ''Connected to RabbitMQ'']
       :: unit effect list) = [Sleep 2000, Sleep 4000]"
    by (simp add: upt_conv_Cons)
  with d5 c5 d3 c3 show ?thesis by (intro conjI) simp_all
qed

text \<open>
  For a broker that refuses every connection, the waits are not 1 s, 2 s, 4 s, 8 s,
  16 s, and the fatal error is raised after five attempts, not six.
\<close>

theorem connect_delays_counterexample:
  "sleeps (snd (snd (snd (connect (\<lambda>n. (ConnectThrows, Suc n))
      (new_bus (mk_config None None None)) (0 :: nat)))) :: unit effect list) \<noteq>
     [Sleep 1000, Sleep 2000, Sleep 4000, Sleep 8000, Sleep 16000] \<and>
   fst (connect (\<lambda>n. (ConnectThrows, Suc n)) (new_bus (mk_config None None None)) (0 :: nat)
          :: (error + unit) \<times> bus \<times> nat \<times> unit effect list) = Inl ConnectFailed \<and>
   fst (snd (snd (connect (\<lambda>n. (ConnectThrows, Suc n)) (new_bus (mk_config None None None)) (0 :: nat)
          :: (error + unit) \<times> bus \<times> nat \<times> unit effect list))) = 5"
  by (simp add: connect_def connect_loop.simps new_bus_def sleeps_def)

section \<open>What a caller of the publisher learns\<close>

lemma sends_append: "sends (xs @ ys) = sends xs @ sends ys"
  by (simp add: sends_def)

lemma publish_sends:
  "publish stringify chan_publish b ev w = (res, w', effs) \<Longrightarrow>
   length (sends effs) = (if channel b \<noteq> None \<and> \<not> isl (stringify ev) then 1 else 0)"
  by (auto simp: publish_def sends_def Let_def split: sum.splits prod.splits if_splits)

lemma cmd_publish_sends:
  "cmd_publish stringify chan_publish b ev w = (res, w', effs) \<Longrightarrow>
   length (sends effs) = (if channel b \<noteq> None \<and> \<not> isl (stringify ev) then 1 else 0)"
  by (auto simp: cmd_publish_def sends_def Let_def split: sum.splits prod.splits if_splits)


lemma publish_isl:
  "isl (fst (publish stringify chan_publish b ev w)) \<longleftrightarrow>
     (channel b = None \<or> isl (stringify ev) \<or>
      (\<exists>body. stringify ev = Inr body \<and>
              isl (fst (chan_publish MAIN_EXCHANGE (routing_key ev) body w))))"
  by (auto simp: publish_def routing_key_def Let_def split: sum.splits prod.splits)

lemma cmd_publish_isl:
  "isl (fst (cmd_publish stringify chan_publish b ev w)) \<longleftrightarrow>
     (channel b = None \<or> isl (stringify ev) \<or>
      (\<exists>body. stringify ev = Inr body \<and>
              fst (chan_publish CMD_MAIN_EXCHANGE (routing_key ev) body w) \<noteq> Inr True))"
  by (auto simp: cmd_publish_def routing_key_def Let_def split: sum.splits prod.splits)


lemma publish_error_is_raised:
  "(channel b = None \<longrightarrow> fst (publish S P b ev w) = Inl ChannelNotInitialized) \<and>
   (\<forall>err. channel b \<noteq> None \<and> S ev = Inl err \<longrightarrow> fst (publish S P b ev w) = Inl err) \<and>
   (\<forall>body err. channel b \<noteq> None \<and> S ev = Inr body \<and>
        fst (P MAIN_EXCHANGE (routing_key ev) body w) = Inl err \<longrightarrow>
        fst (publish S P b ev w) = Inl err)"
  by (auto simp: publish_def routing_key_def Let_def split: sum.splits prod.splits)

lemma cmd_publish_error_is_raised:
  "(channel b = None \<longrightarrow> fst (cmd_publish S P b ev w) = Inl ChannelNotInitialized) \<and>
   (\<forall>err. channel b \<noteq> None \<and> S ev = Inl err \<longrightarrow> fst (cmd_publish S P b ev w) = Inl err) \<and>
   (\<forall>body err. channel b \<noteq> None \<and> S ev = Inr body \<and>
        fst (P CMD_MAIN_EXCHANGE (routing_key ev) body w) = Inl err \<longrightarrow>
        fst (cmd_publish S P b ev w) = Inl err) \<and>
   (\<forall>body. channel b \<noteq> None \<and> S ev = Inr body \<and>
        fst (P CMD_MAIN_EXCHANGE (routing_key ev) body w) = Inr False \<longrightarrow>
        fst (cmd_publish S P b ev w) = Inl PublishReturnedFalse)"
  by (auto simp: cmd_publish_def routing_key_def Let_def split: sum.splits prod.splits)

text \<open>
  C7, as amended. In both buses \<^verbatim>\<open>publish\<close> fails exactly when the channel is not
  initialised, the envelope cannot be encoded, or \<^verbatim>\<open>channel.publish\<close> throws, and
  the error the caller gets is the one raised; the send primitive is called at most
  once, so nothing is retried. A \<^verbatim>\<open>false\<close> returned by \<^verbatim>\<open>channel.publish\<close> is an
  error in the command bus only: the event bus logs a back-pressure warning and
  reports success.
\<close>

theorem publish_errors_reach_caller:
  "(isl (fst (publish S P b ev w)) \<longleftrightarrow>
      (channel b = None \<or> isl (S ev) \<or>
       (\<exists>body. S ev = Inr body \<and> isl (fst (P MAIN_EXCHANGE (routing_key ev) body w))))) \<and>
   (isl (fst (cmd_publish S P b ev w)) \<longleftrightarrow>
      (channel b = None \<or> isl (S ev) \<or>
       (\<exists>body. S ev = Inr body \<and> fst (P CMD_MAIN_EXCHANGE (routing_key ev) body w) \<noteq> Inr True))) \<and>
   (channel b = None \<longrightarrow> fst (publish S P b ev w) = Inl ChannelNotInitialized \<and>
                         fst (cmd_publish S P b ev w) = Inl ChannelNotInitialized) \<and>
   (\<forall>err. channel b \<noteq> None \<and> S ev = Inl err \<longrightarrow>
      fst (publish S P b ev w) = Inl err \<and> fst (cmd_publish S P b ev w) = Inl err) \<and>
   (\<forall>body err. channel b \<noteq> None \<and> S ev = Inr body \<and>
      fst (P MAIN_EXCHANGE (routing_key ev) body w) = Inl err \<longrightarrow>
      fst (publish S P b ev w) = Inl err) \<and>
   (\<forall>body err. channel b \<noteq> None \<and> S ev = Inr body \<and>
      fst (P CMD_MAIN_EXCHANGE (routing_key ev) body w) = Inl err \<longrightarrow>
      fst (cmd_publish S P b ev w) = Inl err) \<and>
   (\<forall>body. channel b \<noteq> None \<and> S ev = Inr body \<and>
      fst (P MAIN_EXCHANGE (routing_key ev) body w) = Inr False \<longrightarrow>
      publish S P b ev w =
        (Inr (), snd (P MAIN_EXCHANGE (routing_key ev) body w),
         [Send MAIN_EXCHANGE (routing_key ev) body
            [(''x-event-id'', ev_id ev), (''x-correlation-id'', correlationId (ev_metadata ev))],
          Log Warn ''Publisher backpressure detected'', Log Debug ''Event published''])) \<and>
   (\<forall>body. channel b \<noteq> None \<and> S ev = Inr body \<and>
      fst (P CMD_MAIN_EXCHANGE (routing_key ev) body w) = Inr False \<longrightarrow>
      fst (cmd_publish S P b ev w) = Inl PublishReturnedFalse) \<and>
   length (sends (snd (snd (publish S P b ev w)))) \<le> 1 \<and>
   length (sends (snd (snd (cmd_publish S P b ev w)))) \<le> 1"
proof -
  have s1: "length (sends (snd (snd (publish S P b ev w)))) \<le> 1"
    by (cases "publish S P b ev w") (auto dest: publish_sends)
  have s2: "length (sends (snd (snd (cmd_publish S P b ev w)))) \<le> 1"
    by (cases "cmd_publish S P b ev w") (auto dest: cmd_publish_sends)
  have bp: "publish S P b ev w =
        (Inr (), snd (P MAIN_EXCHANGE (routing_key ev) body w),
         [Send MAIN_EXCHANGE (routing_key ev) body
            [(''x-event-id'', ev_id ev), (''x-correlation-id'', correlationId (ev_metadata ev))],
          Log Warn ''Publisher backpressure detected'', Log Debug ''Event published''])"
    if "channel b \<noteq> None" "S ev = Inr body" "fst (P MAIN_EXCHANGE (routing_key ev) body w) = Inr False"
    for body
    using that by (auto simp: publish_def routing_key_def Let_def split: sum.splits prod.splits)
  show ?thesis
    using publish_isl[of S P b ev w] cmd_publish_isl[of S P b ev w]
      publish_error_is_raised[of b S P ev w] cmd_publish_error_is_raised[of b S P ev w] s1 s2 bp
    by blast
qed

theorem publish_errors_reach_caller_witness:
  "fst (publish (\<lambda>e. Inr (ev_data e)) (\<lambda>x k m n. (Inl (Thrown ''channel closed''), Suc n))
          connected_bus (example_event ''{}'') (0 :: nat)) = Inl (Thrown ''channel closed'') \<and>
   fst (cmd_publish (\<lambda>e. Inr (ev_data e)) (\<lambda>x k m n. (Inr False, Suc n))
          connected_bus (example_event ''{}'') (0 :: nat)) = Inl PublishReturnedFalse \<and>
   fst (publish (\<lambda>e. Inl (Thrown ''circular structure'')) (\<lambda>x k m n. (Inr True, Suc n))
          connected_bus (example_event ''{}'') (0 :: nat)) = Inl (Thrown ''circular structure'') \<and>
   fst (publish (\<lambda>e. Inr (ev_data e)) (\<lambda>x k m n. (Inr True, Suc n))
          (new_bus (mk_config None None None)) (example_event ''{}'') (0 :: nat)) =
     Inl ChannelNotInitialized"
  using publish_errors_reach_caller
          [where S = "\<lambda>e. Inr (ev_data e)" and P = "\<lambda>x k m n. (Inl (Thrown ''channel closed''), Suc n)"
             and b = connected_bus and ev = "example_event ''{}''" and w = "0 :: nat"]
        publish_errors_reach_caller
          [where S = "\<lambda>e. Inr (ev_data e)" and P = "\<lambda>x k m n. (Inr False, Suc n)"
             and b = connected_bus and ev = "example_event ''{}''" and w = "0 :: nat"]
        publish_errors_reach_caller
          [where S = "\<lambda>e. Inl (Thrown ''circular structure'')" and P = "\<lambda>x k m n. (Inr True, Suc n)"
             and b = connected_bus and ev = "example_event ''{}''" and w = "0 :: nat"]
        publish_errors_reach_caller
          [where S = "\<lambda>e. Inr (ev_data e)" and P = "\<lambda>x k m n. (Inr True, Suc n)"
             and b = "new_bus (mk_config None None None)" and ev = "example_event ''{}''"
             and w = "0 :: nat"]
  by (simp add: connected_bus_def new_bus_def example_event_def)

text \<open>
  The event bus, on a channel whose send primitive returns \<^verbatim>\<open>false\<close>: the caller
  of \<^verbatim>\<open>publish\<close> gets no error.
\<close>

theorem publish_false_counterexample:
  "fst ((\<lambda>x k m n. (Inr False, Suc n)) MAIN_EXCHANGE (routing_key (example_event ''{}'')) ''{}'' (0 :: nat))
     = (Inr False :: error + bool) \<and>
   fst (publish (\<lambda>e. Inr (ev_data e)) (\<lambda>x k m n. (Inr False, Suc n))
          connected_bus (example_event ''{}'') (0 :: nat)) = Inr ()"
  by (simp add: publish_def connected_bus_def new_bus_def example_event_def)












section \<open>Unsubscribing and the installed consumer\<close>







section \<open>Draining the dead-letter queue\<close>

lemma dlq_loop_settled:
  "dlq_loop chan_get parse n messages w = (res, w', effs) \<Longrightarrow> settled effs = []"
proof (induction n arbitrary: messages w res w' effs)
  case 0
  then show ?case by simp
next
  case (Suc n)
  then show ?case
    by (auto split: prod.splits sum.splits option.splits)
qed

lemma dlq_loop_length:
  "dlq_loop chan_get parse n messages w = (Inr out, w', effs) \<Longrightarrow>
   length out \<le> length messages + n"
proof (induction n arbitrary: messages w out w' effs)
  case 0
  then show ?case by simp
next
  case (Suc n)
  then show ?case
    by (fastforce split: prod.splits sum.splits option.splits)
qed

lemma settled_nack_parsed: "settled (map (\<lambda>x. Nack (Parsed v) u q) xs) = []"
  by (induction xs) simp_all

lemma getDLQMessages_holds_back:
  assumes "getDLQMessages chan_get parse b limit w = (res, w', effs)"
  shows "settled effs = [] \<and> (\<forall>out. res = Inr out \<longrightarrow> length out \<le> nat limit)"
proof (cases "channel b = None")
  case True
  with assms show ?thesis by (auto simp: getDLQMessages_def)
next
  case False
  obtain r w1 fx where l: "dlq_loop chan_get parse (nat limit) [] w = (r, w1, fx)"
    by (metis prod_cases3)
  note s = dlq_loop_settled[OF l]
  show ?thesis
  proof (cases r)
    case (Inl err)
    with assms False l s show ?thesis by (auto simp: getDLQMessages_def)
  next
    case (Inr out)
    with dlq_loop_length[of chan_get parse "nat limit" "[]" w out w1 fx] l
    have "length out \<le> nat limit" by simp
    with assms False l s Inr show ?thesis
      by (cases out) (auto simp: getDLQMessages_def settled_append settled_nack_parsed)
  qed
qed

text \<open>
  C9. Three messages wait in the dead-letter queue, the second malformed. The two
  well-formed bodies are returned and the malformed one is skipped with a warning,
  but afterwards the queue has no ready message left: all three deliveries were
  fetched, the two calls of \<^verbatim>\<open>nack\<close> are for the first parsed body, and no fetched
  delivery is given back.
\<close>

theorem getDLQMessages_keeps_deliveries:
  "getDLQMessages get_ready (\<lambda>s. if s = ''not json'' then None else Some (JValue s))
     connected_bus 10
     [\<lparr>deliveryTag = 1, content = ''E1''\<rparr>, \<lparr>deliveryTag = 2, content = ''not json''\<rparr>,
      \<lparr>deliveryTag = 3, content = ''E2''\<rparr>] =
   (Inr [JValue ''E1'', JValue ''E2''], [],
    [Fetch \<lparr>deliveryTag = 1, content = ''E1''\<rparr>,
     Fetch \<lparr>deliveryTag = 2, content = ''not json''\<rparr>,
     Log Warn ''Invalid message format in DLQ'',
     Fetch \<lparr>deliveryTag = 3, content = ''E2''\<rparr>,
     Nack (Parsed (JValue ''E1'')) False True,
     Nack (Parsed (JValue ''E1'')) False True]) \<and>
   fetched (snd (snd (getDLQMessages get_ready
     (\<lambda>s. if s = ''not json'' then None else Some (JValue s)) connected_bus 10
     [\<lparr>deliveryTag = 1, content = ''E1''\<rparr>, \<lparr>deliveryTag = 2, content = ''not json''\<rparr>,
      \<lparr>deliveryTag = 3, content = ''E2''\<rparr>]))) =
     [\<lparr>deliveryTag = 1, content = ''E1''\<rparr>, \<lparr>deliveryTag = 2, content = ''not json''\<rparr>,
      \<lparr>deliveryTag = 3, content = ''E2''\<rparr>] \<and>
   settled (snd (snd (getDLQMessages get_ready
     (\<lambda>s. if s = ''not json'' then None else Some (JValue s)) connected_bus 10
     [\<lparr>deliveryTag = 1, content = ''E1''\<rparr>, \<lparr>deliveryTag = 2, content = ''not json''\<rparr>,
      \<lparr>deliveryTag = 3, content = ''E2''\<rparr>]))) = []"
  by (simp add: getDLQMessages_def get_ready_def connected_bus_def new_bus_def eval_nat_numeral)

section \<open>The cursor service\<close>

lemma positions_set_append: "positions_set (xs @ ys) = positions_set xs @ positions_set ys"
  by (induction xs rule: positions_set.induct) simp_all

lemma follows_publish_append:
  "follows_publish prev (xs @ ys) \<longleftrightarrow>
     follows_publish prev xs \<and> follows_publish (if xs = [] then prev else Some (last xs)) ys"
  by (induction xs arbitrary: prev) auto

lemma follows_publish_no_position:
  "\<forall>x \<in> set xs. \<not> is_position x \<Longrightarrow> follows_publish prev xs"
  by (induction xs arbitrary: prev) auto

lemma publish_ok:
  "publish S P b ev w = (Inr u, w', effs) \<Longrightarrow>
   effs \<noteq> [] \<and> last effs = Log Debug ''Event published'' \<and> length (sends effs) = 1 \<and>
   positions_set effs = [] \<and> (\<forall>x \<in> set effs. \<not> is_position x)"
  by (auto simp: publish_def sends_def Let_def split: sum.splits prod.splits if_splits)

lemma publish_failed:
  "publish S P b ev w = (Inl err, w', effs) \<Longrightarrow>
   positions_set effs = [] \<and> (\<forall>x \<in> set effs. \<not> is_position x) \<and> length (sends effs) \<le> 1"
  by (auto simp: publish_def sends_def Let_def split: sum.splits prod.splits if_splits)

lemma apply_positions_append:
  "apply_positions (ps @ qs) m = apply_positions qs (apply_positions ps m)"
  by (simp add: apply_positions_def)

text \<open>One row of the loop, unfolded.\<close>

lemma process_rows_skip:
  "event_type row \<noteq> ''INSERT'' \<Longrightarrow>
   process_rows env b spec (row # rows) d w = process_rows env b spec rows d w"
  by simp

lemma process_rows_undecodable:
  "event_type row = ''INSERT'' \<Longrightarrow> e_decode env (table spec) (row_data row) = Inl err \<Longrightarrow>
   process_rows env b spec (row # rows) d w = (Some err, d, w, [])"
  by simp

lemma process_rows_publish_fails:
  "event_type row = ''INSERT'' \<Longrightarrow> e_decode env (table spec) (row_data row) = Inr payload \<Longrightarrow>
   e_fresh env w = (stamp, w1) \<Longrightarrow>
   publish (e_stringify env) (e_chan_publish env) b
     (criarEvent spec stamp payload (case correlation_id row of None \<Rightarrow> [] | Some c \<Rightarrow> c) ''cdc'') w1
     = (Inl err, w2, effs) \<Longrightarrow>
   process_rows env b spec (row # rows) d w = (Some err, d, w2, effs)"
  by (simp add: Let_def)

lemma process_rows_upsert_fails:
  "event_type row = ''INSERT'' \<Longrightarrow> e_decode env (table spec) (row_data row) = Inr payload \<Longrightarrow>
   e_fresh env w = (stamp, w1) \<Longrightarrow>
   publish (e_stringify env) (e_chan_publish env) b
     (criarEvent spec stamp payload (case correlation_id row of None \<Rightarrow> [] | Some c \<Rightarrow> c) ''cdc'') w1
     = (Inr u, w2, effs) \<Longrightarrow>
   e_db_fails env (UpsertPosition (table spec) (row_id row)) w2 = (Some err, w3) \<Longrightarrow>
   process_rows env b spec (row # rows) d w = (Some err, d, w3, effs)"
  by (simp add: Let_def)

lemma process_rows_advance:
  "event_type row = ''INSERT'' \<Longrightarrow> e_decode env (table spec) (row_data row) = Inr payload \<Longrightarrow>
   e_fresh env w = (stamp, w1) \<Longrightarrow>
   publish (e_stringify env) (e_chan_publish env) b
     (criarEvent spec stamp payload (case correlation_id row of None \<Rightarrow> [] | Some c \<Rightarrow> c) ''cdc'') w1
     = (Inr u, w2, effs) \<Longrightarrow>
   e_db_fails env (UpsertPosition (table spec) (row_id row)) w2 = (None, w3) \<Longrightarrow>
   process_rows env b spec rows
     (d\<lparr>cdc_position := (cdc_position d)(table spec \<mapsto> Some (row_id row))\<rparr>) w3
     = (res, d', w4, effs') \<Longrightarrow>
   process_rows env b spec (row # rows) d w =
     (res, d', w4,
      effs @ [SetPosition (table spec) (row_id row), Log Debug (table spec @ '' event published'')]
           @ effs')"
  by (simp add: Let_def)

text \<open>The five ways one row can go, as a case rule.\<close>

lemma process_rows_cases:
  assumes run: "process_rows env b spec (row # rows) d w = (res, d', w', effs)"
  obtains
    (skip) "event_type row \<noteq> ''INSERT''"
      "process_rows env b spec rows d w = (res, d', w', effs)"
  | (undecodable) err where "event_type row = ''INSERT''"
      "res = Some err" "d' = d" "w' = w" "effs = []"
  | (publish_fails) err where "event_type row = ''INSERT''"
      "res = Some err" "d' = d" "positions_set effs = []" "\<forall>x \<in> set effs. \<not> is_position x"
      "length (sends effs) \<le> 1"
  | (upsert_fails) err where "event_type row = ''INSERT''"
      "res = Some err" "d' = d" "positions_set effs = []" "\<forall>x \<in> set effs. \<not> is_position x"
      "length (sends effs) = 1"
  | (advance) pub w3 rest where "event_type row = ''INSERT''"
      "pub \<noteq> []" "last pub = Log Debug ''Event published''" "length (sends pub) = 1"
      "positions_set pub = []" "\<forall>x \<in> set pub. \<not> is_position x"
      "process_rows env b spec rows
         (d\<lparr>cdc_position := (cdc_position d)(table spec \<mapsto> Some (row_id row))\<rparr>) w3
         = (res, d', w', rest)"
      "effs = pub @ [SetPosition (table spec) (row_id row),
                     Log Debug (table spec @ '' event published'')] @ rest"
proof (cases "event_type row = ''INSERT''")
  case False
  with run skip show ?thesis by simp
next
  case ins: True
  show ?thesis
  proof (cases "e_decode env (table spec) (row_data row)")
    case (Inl err)
    from run process_rows_undecodable[OF ins Inl, of b rows d w] undecodable[OF ins, of err]
    show ?thesis by simp
  next
    case (Inr payload)
    obtain stamp w1 where fr: "e_fresh env w = (stamp, w1)" by (metis prod.exhaust)
    let ?ev = "criarEvent spec stamp payload
                 (case correlation_id row of None \<Rightarrow> [] | Some c \<Rightarrow> c) ''cdc''"
    obtain pres w2 pub where
      pb: "publish (e_stringify env) (e_chan_publish env) b ?ev w1 = (pres, w2, pub)"
      by (metis prod_cases3)
    show ?thesis
    proof (cases pres)
      case (Inl err)
      from process_rows_publish_fails[OF ins Inr fr pb[unfolded Inl], of rows d] run
        publish_failed[OF pb[unfolded Inl]] publish_fails[OF ins, of err]
      show ?thesis by simp
    next
      case pok: (Inr u)
      note ok = publish_ok[OF pb[unfolded pok]]
      obtain ures w3 where up: "e_db_fails env (UpsertPosition (table spec) (row_id row)) w2 = (ures, w3)"
        by (metis prod.exhaust)
      show ?thesis
      proof (cases ures)
        case (Some err)
        from process_rows_upsert_fails[OF ins Inr fr pb[unfolded pok] up[unfolded Some], of rows d] run ok
          upsert_fails[OF ins, of err]
        show ?thesis by simp
      next
        case None
        obtain res2 d2 w4 rest where rec: "process_rows env b spec rows
           (d\<lparr>cdc_position := (cdc_position d)(table spec \<mapsto> Some (row_id row))\<rparr>) w3
           = (res2, d2, w4, rest)"
          by (metis prod_cases4)
        from process_rows_advance[OF ins Inr fr pb[unfolded pok] up[unfolded None] rec] run
        have "res = res2" "d' = d2" "w' = w4"
          "effs = pub @ [SetPosition (table spec) (row_id row),
                     Log Debug (table spec @ '' event published'')] @ rest"
          by simp_all
        with advance[OF ins, of pub w3 rest] ok rec show ?thesis by simp
      qed
    qed
  qed
qed


lemma process_rows_result:
  "process_rows env b spec rows d w = (res, d', w', effs) \<Longrightarrow>
   event_log d' = event_log d \<and>
   cdc_position d' = apply_positions (positions_set effs) (cdc_position d) \<and>
   follows_publish prev effs \<and>
   (res = None \<longrightarrow>
      positions_set effs =
        map (\<lambda>r. (table spec, row_id r)) (filter (\<lambda>r. event_type r = ''INSERT'') rows) \<and>
      length (sends effs) = length (filter (\<lambda>r. event_type r = ''INSERT'') rows)) \<and>
   (\<exists>rest. map (\<lambda>r. (table spec, row_id r)) (filter (\<lambda>r. event_type r = ''INSERT'') rows) =
             positions_set effs @ rest)"
proof (induction rows arbitrary: d w res d' w' effs prev)
  case Nil
  then show ?case by (auto simp: apply_positions_def sends_def)
next
  case (Cons row rows)
  from Cons.prems show ?case
  proof (cases rule: process_rows_cases)
    case skip
    from Cons.IH[OF skip(2), of prev] skip(1) show ?thesis by simp
  next
    case (undecodable err)
    then show ?thesis by (simp add: apply_positions_def)
  next
    case (publish_fails err)
    then show ?thesis by (simp add: apply_positions_def follows_publish_no_position)
  next
    case (upsert_fails err)
    then show ?thesis by (simp add: apply_positions_def follows_publish_no_position)
  next
    case (advance pub w3 rest)
    note ih = Cons.IH[OF advance(7),
                of "Some (Log Debug (table spec @ '' event published''))"]
    have fp: "follows_publish prev effs"
      using advance(2,3,6) ih
      by (simp add: advance(8) follows_publish_append follows_publish_no_position)
    have ps: "positions_set effs = (table spec, row_id row) # positions_set rest"
      using advance(5) by (simp add: advance(8) positions_set_append)
    have "apply_positions (positions_set effs) (cdc_position d) =
            apply_positions (positions_set rest)
              ((cdc_position d)(table spec \<mapsto> Some (row_id row)))"
      unfolding ps by (simp add: apply_positions_def)
    with ih have ap: "cdc_position d' = apply_positions (positions_set effs) (cdc_position d)"
      by (simp add: fun_upd_def)
    from ih advance(1,4,5) fp ap show ?thesis
      by (auto simp: advance(8) positions_set_append sends_def)
  qed
qed


lemma is_uuid_lsn: "is_uuid s \<Longrightarrow> lsn_of (Some s) = s"
  by (auto simp: is_uuid_def lsn_of_def)

lemma apply_positions_other:
  "t \<notin> fst ` set ps \<Longrightarrow> apply_positions ps m t = m t"
  by (induction ps arbitrary: m) (auto simp: apply_positions_def)

lemma apply_positions_last:
  "ps \<noteq> [] \<Longrightarrow> \<forall>p \<in> set ps. fst p = t \<Longrightarrow>
   apply_positions ps m t = Some (Some (snd (last ps)))"
proof (induction ps arbitrary: m)
  case Nil
  then show ?case by simp
next
  case (Cons p ps)
  show ?case
  proof (cases "ps = []")
    case True
    with Cons.prems show ?thesis by (simp add: apply_positions_def)
  next
    case False
    with Cons.IH[OF False, of "m(fst p \<mapsto> Some (snd p))"] Cons.prems show ?thesis
      by (simp add: apply_positions_def fun_upd_def)
  qed
qed

lemma select_log_set:
  "set (select_log d t lp) =
     {r \<in> set (event_log d). entity_type r = t \<and> (lp = [] \<or> lp < row_id r)}"
  by (auto simp: select_log_def)

lemma select_log_sorted: "sorted (map row_id (select_log d t lp))"
  by (simp add: select_log_def)

lemma processChanges_frame:
  assumes "processChanges spec env b positions d w = (res, d', w', effs)"
  shows "event_log d' = event_log d \<and>
         (\<forall>t. t \<noteq> table spec \<longrightarrow> cdc_position d' t = cdc_position d t) \<and>
         cdc_position d' = apply_positions (positions_set effs) (cdc_position d) \<and>
         follows_publish prev effs \<and>
         (\<exists>rest. map (\<lambda>r. (table spec, row_id r))
                   (filter (\<lambda>r. event_type r = ''INSERT'')
                      (select_log d (table spec) (lastPosition_of positions (table spec)))) =
                 positions_set effs @ rest)"
proof -
  let ?lp = "lastPosition_of positions (table spec)"
  obtain q w1 where q: "e_db_fails env (SelectLog (table spec) ?lp) w = (q, w1)"
    by (metis prod.exhaust)
  show ?thesis
  proof (cases q)
    case (Some err)
    with assms q show ?thesis by (auto simp: processChanges_def apply_positions_def)
  next
    case None
    with assms q have
      run: "process_rows env b spec (select_log d (table spec) ?lp) d w1 = (res, d', w', effs)"
      by (simp add: processChanges_def)
    note r = process_rows_result[OF run, of prev]
    then obtain rest where
      pre: "map (\<lambda>r. (table spec, row_id r))
              (filter (\<lambda>r. event_type r = ''INSERT'') (select_log d (table spec) ?lp)) =
            positions_set effs @ rest" by blast
    have "fst ` set (positions_set effs) \<subseteq> {table spec}"
    proof -
      have "set (positions_set effs) \<subseteq> set (positions_set effs @ rest)" by simp
      also have "\<dots> \<subseteq> (\<lambda>r. (table spec, row_id r)) ` set (select_log d (table spec) ?lp)"
        unfolding pre[symmetric] by auto
      finally show ?thesis by auto
    qed
    then have "\<forall>t. t \<noteq> table spec \<longrightarrow> t \<notin> fst ` set (positions_set effs)" by auto
    with r show ?thesis by (auto simp: apply_positions_other)
  qed
qed

lemma processChanges_monotone:
  assumes uu: "\<forall>r \<in> set (event_log d). is_uuid (row_id r)"
      and cur: "lastPosition_of positions (table spec) = cursor d (table spec)"
      and run: "processChanges spec env b positions d w = (res, d', w', effs)"
  shows "cursor d t \<le> cursor d' t"
proof (cases "t = table spec")
  case False
  with processChanges_frame[OF run, of None] have "cdc_position d' t = cdc_position d t"
    by blast
  then show ?thesis
    by (simp add: cursor_def read_positions_def lastPosition_of_def)
next
  case True
  let ?lp = "lastPosition_of positions (table spec)"
  from processChanges_frame[OF run, of None] obtain rest where
    ap: "cdc_position d' = apply_positions (positions_set effs) (cdc_position d)" and
    pre: "map (\<lambda>r. (table spec, row_id r))
            (filter (\<lambda>r. event_type r = ''INSERT'') (select_log d (table spec) ?lp)) =
          positions_set effs @ rest" by blast
  show ?thesis
  proof (cases "positions_set effs = []")
    case True
    with ap show ?thesis
      by (simp add: apply_positions_def cursor_def read_positions_def lastPosition_of_def)
  next
    case False
    have sub: "set (positions_set effs) \<subseteq>
                 (\<lambda>r. (table spec, row_id r)) ` set (select_log d (table spec) ?lp)"
    proof -
      have "set (positions_set effs) \<subseteq> set (positions_set effs @ rest)" by simp
      also have "\<dots> \<subseteq> (\<lambda>r. (table spec, row_id r)) ` set (select_log d (table spec) ?lp)"
        unfolding pre[symmetric] by auto
      finally show ?thesis .
    qed
    then have all: "\<forall>p \<in> set (positions_set effs). fst p = table spec" by auto
    from False have "last (positions_set effs) \<in> set (positions_set effs)" by simp
    with sub obtain r where
      r: "r \<in> set (select_log d (table spec) ?lp)" "last (positions_set effs) = (table spec, row_id r)"
      by auto
    from r(1) have rin: "r \<in> set (event_log d)" and above: "?lp = [] \<or> ?lp < row_id r"
      by (auto simp: select_log_set)
    from apply_positions_last[OF False all, of "cdc_position d"] ap r(2)
    have "cdc_position d' (table spec) = Some (Some (row_id r))" by simp
    then have "cursor d' (table spec) = lsn_of (Some (row_id r))"
      by (simp add: cursor_def read_positions_def lastPosition_of_def)
    with uu rin have now: "cursor d' (table spec) = row_id r" by (simp add: is_uuid_lsn)
    from above cur have "cursor d (table spec) \<le> row_id r" by auto
    with now \<open>t = table spec\<close> show ?thesis by simp
  qed
qed


lemma tables_distinct:
  "table Cliente = ''Cliente''" "table Produto = ''Produto''" "table Pedido = ''Pedido''"
  by (simp_all add: Cliente_def Produto_def Pedido_def)

lemma checkForChanges_scan:
  assumes "e_db_fails env PoolConnect w = (None, w0)"
      and "e_db_fails env SelectPositions w0 = (None, w1)"
      and "processClienteChanges env b (read_positions d) d w1 = (r1, d1, w2, e1)"
      and "processProdutoChanges env b (read_positions d) d1 w2 = (r2, d2, w3, e2)"
      and "processPedidoChanges env b (read_positions d) d2 w3 = (r3, d3, w4, e3)"
  shows "checkForChanges env b d w =
           (if r1 \<noteq> None then (r1, d1, w2, e1 @ [ReleaseClient])
            else if r2 \<noteq> None then (r2, d2, w3, e1 @ e2 @ [ReleaseClient])
            else (r3, d3, w4, e1 @ e2 @ e3 @ [ReleaseClient]))"
  using assms by (cases r1; cases r2) (simp_all add: checkForChanges_def Let_def)

lemma checkForChanges_result:
  assumes run: "checkForChanges env b d w = (res, d', w', effs)"
  shows "event_log d' = event_log d \<and>
         cdc_position d' = apply_positions (positions_set effs) (cdc_position d) \<and>
         follows_publish None effs \<and>
         ((\<forall>r \<in> set (event_log d). is_uuid (row_id r)) \<longrightarrow> (\<forall>t. cursor d t \<le> cursor d' t))"
proof -
  obtain c0 w0 where c0: "e_db_fails env PoolConnect w = (c0, w0)" by (metis prod.exhaust)
  obtain c1 w1 where c1: "e_db_fails env SelectPositions w0 = (c1, w1)" by (metis prod.exhaust)
  show ?thesis
  proof (cases "c0 = None \<and> c1 = None")
    case False
    with run c0 c1 show ?thesis
      by (cases c0; cases c1) (auto simp: checkForChanges_def apply_positions_def)
  next
    case True
    let ?ps = "read_positions d"
    obtain r1 d1 w2 e1 where p1: "processClienteChanges env b ?ps d w1 = (r1, d1, w2, e1)"
      by (metis prod_cases4)
    obtain r2 d2 w3 e2 where p2: "processProdutoChanges env b ?ps d1 w2 = (r2, d2, w3, e2)"
      by (metis prod_cases4)
    obtain r3 d3 w4 e3 where p3: "processPedidoChanges env b ?ps d2 w3 = (r3, d3, w4, e3)"
      by (metis prod_cases4)
    note scan = checkForChanges_scan[OF c0[unfolded conjunct1[OF True]] c1[unfolded conjunct2[OF True]] p1 p2 p3]
    note q1 = p1[unfolded processClienteChanges_def]
    note q2 = p2[unfolded processProdutoChanges_def]
    note q3 = p3[unfolded processPedidoChanges_def]
    have g1: "event_log d1 = event_log d \<and>
             (\<forall>t. t \<noteq> ''Cliente'' \<longrightarrow> cdc_position d1 t = cdc_position d t) \<and>
             cdc_position d1 = apply_positions (positions_set e1) (cdc_position d) \<and>
             follows_publish prev e1" for prev
      using processChanges_frame[OF q1, of prev, unfolded tables_distinct] by blast
    have f1: "event_log d1 = event_log d"
             "cdc_position d1 = apply_positions (positions_set e1) (cdc_position d)"
             "\<And>prev. follows_publish prev e1"
             "\<And>t. t \<noteq> ''Cliente'' \<Longrightarrow> cdc_position d1 t = cdc_position d t"
      using g1 by blast+
    have g2: "event_log d2 = event_log d1 \<and>
             (\<forall>t. t \<noteq> ''Produto'' \<longrightarrow> cdc_position d2 t = cdc_position d1 t) \<and>
             cdc_position d2 = apply_positions (positions_set e2) (cdc_position d1) \<and>
             follows_publish prev e2" for prev
      using processChanges_frame[OF q2, of prev, unfolded tables_distinct] by blast
    have f2: "event_log d2 = event_log d1"
             "cdc_position d2 = apply_positions (positions_set e2) (cdc_position d1)"
             "\<And>prev. follows_publish prev e2"
             "\<And>t. t \<noteq> ''Produto'' \<Longrightarrow> cdc_position d2 t = cdc_position d1 t"
      using g2 by blast+
    have g3: "event_log d3 = event_log d2 \<and>
             cdc_position d3 = apply_positions (positions_set e3) (cdc_position d2) \<and>
             follows_publish prev e3" for prev
      using processChanges_frame[OF q3, of prev] by blast
    have f3: "event_log d3 = event_log d2"
             "cdc_position d3 = apply_positions (positions_set e3) (cdc_position d2)"
             "\<And>prev. follows_publish prev e3"
      using g3 by blast+
    have rel: "\<And>prev. follows_publish prev [ReleaseClient]" by simp
    have m1: "cursor d t \<le> cursor d1 t" if "\<forall>r \<in> set (event_log d). is_uuid (row_id r)" for t
      by (rule processChanges_monotone[OF that _ q1]) (simp add: cursor_def)
    have m2: "cursor d1 t \<le> cursor d2 t" if "\<forall>r \<in> set (event_log d). is_uuid (row_id r)" for t
    proof (rule processChanges_monotone[OF _ _ q2])
      from that f1(1) show "\<forall>r \<in> set (event_log d1). is_uuid (row_id r)" by simp
      from f1(4)[of "''Produto''"]
      show "lastPosition_of ?ps (table Produto) = cursor d1 (table Produto)"
        by (simp add: cursor_def tables_distinct lastPosition_of_def read_positions_def)
    qed
    have m3: "cursor d2 t \<le> cursor d3 t" if "\<forall>r \<in> set (event_log d). is_uuid (row_id r)" for t
    proof (rule processChanges_monotone[OF _ _ q3])
      from that f1(1) f2(1) show "\<forall>r \<in> set (event_log d2). is_uuid (row_id r)" by simp
      from f1(4)[of "''Pedido''"] f2(4)[of "''Pedido''"]
      show "lastPosition_of ?ps (table Pedido) = cursor d2 (table Pedido)"
        by (simp add: cursor_def tables_distinct lastPosition_of_def read_positions_def)
    qed
    consider (a) "r1 \<noteq> None" | (b) "r1 = None" "r2 \<noteq> None" | (c) "r1 = None" "r2 = None"
      by blast
    then show ?thesis
    proof cases
      case a
      with scan run have "d' = d1" "effs = e1 @ [ReleaseClient]" by simp_all
      with f1(1-3) m1 show ?thesis
        by (simp add: positions_set_append follows_publish_append)
    next
      case b
      with scan run have "d' = d2" "effs = e1 @ e2 @ [ReleaseClient]" by simp_all
      moreover have "cursor d t \<le> cursor d2 t"
        if "\<forall>r \<in> set (event_log d). is_uuid (row_id r)" for t
        using m1[OF that, of t] m2[OF that, of t] by (rule order_trans)
      ultimately show ?thesis using f1(1-3) f2(1-3)
        by (simp add: positions_set_append follows_publish_append apply_positions_append)
    next
      case c
      with scan run have "d' = d3" "effs = e1 @ e2 @ e3 @ [ReleaseClient]" by simp_all
      moreover have "cursor d t \<le> cursor d3 t"
        if "\<forall>r \<in> set (event_log d). is_uuid (row_id r)" for t
        using order_trans[OF order_trans[OF m1[OF that, of t] m2[OF that, of t]] m3[OF that, of t]] .
      ultimately show ?thesis using f1(1-3) f2(1-3) f3(1-3)
        by (simp add: positions_set_append follows_publish_append apply_positions_append)
    qed
  qed
qed


lemma poll_tick_result:
  assumes "poll_tick env b d w = (d', w', effs)"
  shows "event_log d' = event_log d \<and>
         ((\<forall>r \<in> set (event_log d). is_uuid (row_id r)) \<longrightarrow> (\<forall>t. cursor d t \<le> cursor d' t))"
proof -
  obtain res d1 w1 e1 where c: "checkForChanges env b d w = (res, d1, w1, e1)"
    by (metis prod_cases4)
  with assms have "d' = d1" by (cases res) (simp_all add: poll_tick_def)
  with checkForChanges_result[OF c] show ?thesis by simp
qed

lemma poll_monotone:
  "\<forall>r \<in> set (event_log d). is_uuid (row_id r) \<Longrightarrow> cursor d t \<le> cursor (fst (poll n env b d w)) t"
proof (induction n arbitrary: d w)
  case 0
  then show ?case by simp
next
  case (Suc n)
  obtain d1 w1 e1 where t: "poll_tick env b d w = (d1, w1, e1)" by (metis prod_cases3)
  note r = poll_tick_result[OF t]
  from r Suc.prems have u1: "\<forall>r \<in> set (event_log d1). is_uuid (row_id r)" by simp
  have step: "fst (poll (Suc n) env b d w) = fst (poll n env b d1 w1)"
    using t by (simp add: case_prod_beta)
  from r Suc.prems have "cursor d t \<le> cursor d1 t" by simp
  also note Suc.IH[OF u1, of w1]
  finally show ?case unfolding step .
qed

lemma process_rows_append:
  "process_rows env b spec (xs @ ys) d w =
     (case process_rows env b spec xs d w of
        (None, d1, w1, e1) \<Rightarrow>
          (case process_rows env b spec ys d1 w1 of
             (res, d2, w2, e2) \<Rightarrow> (res, d2, w2, e1 @ e2))
      | (Some err, d1, w1, e1) \<Rightarrow> (Some err, d1, w1, e1))"
proof (induction xs arbitrary: d w)
  case Nil
  show ?case by (simp split: prod.splits)
next
  case (Cons row xs)
  show ?case
  proof (cases "event_type row = ''INSERT''")
    case False
    then show ?thesis using Cons.IH by simp
  next
    case ins: True
    show ?thesis
    proof (cases "e_decode env (table spec) (row_data row)")
      case (Inl err)
      with ins show ?thesis by simp
    next
      case (Inr payload)
      obtain stamp w1 where fr: "e_fresh env w = (stamp, w1)" by (metis prod.exhaust)
      let ?ev = "criarEvent spec stamp payload
                   (case correlation_id row of None \<Rightarrow> [] | Some c \<Rightarrow> c) ''cdc''"
      obtain pres w2 pub where
        pb: "publish (e_stringify env) (e_chan_publish env) b ?ev w1 = (pres, w2, pub)"
        by (metis prod_cases3)
      show ?thesis
      proof (cases pres)
        case (Inl err)
        with ins Inr fr pb show ?thesis by (simp add: Let_def)
      next
        case pok: (Inr u)
        obtain ures w3 where
          up: "e_db_fails env (UpsertPosition (table spec) (row_id row)) w2 = (ures, w3)"
          by (metis prod.exhaust)
        show ?thesis
        proof (cases ures)
          case (Some err)
          with ins Inr fr pb pok up show ?thesis by (simp add: Let_def)
        next
          case None
          let ?d = "d\<lparr>cdc_position := (cdc_position d)(table spec \<mapsto> Some (row_id row))\<rparr>"
          obtain r2 d2 w4 e2 where rec: "process_rows env b spec xs ?d w3 = (r2, d2, w4, e2)"
            by (metis prod_cases4)
          obtain r3 d3 w5 e3 where rec2: "process_rows env b spec ys d2 w4 = (r3, d3, w5, e3)"
            by (metis prod_cases4)
          from Cons.IH[of ?d w3] rec rec2 have
            app: "process_rows env b spec (xs @ ys) ?d w3 =
                    (case r2 of None \<Rightarrow> (r3, d3, w5, e2 @ e3) | Some err \<Rightarrow> (Some err, d2, w4, e2))"
            by (cases r2) simp_all
          from ins Inr fr pb pok up None rec rec2 app show ?thesis
            by (cases r2) (simp_all add: Let_def)
        qed
      qed
    qed
  qed
qed

lemma process_rows_sends:
  "process_rows env b spec rows d w = (res, d', w', effs) \<Longrightarrow>
   length (positions_set effs) \<le> length (sends effs) \<and>
   length (sends effs) \<le> Suc (length (positions_set effs))"
proof (induction rows arbitrary: d w res d' w' effs)
  case Nil
  then show ?case by (auto simp: sends_def)
next
  case (Cons row rows)
  from Cons.prems show ?case
  proof (cases rule: process_rows_cases)
    case skip
    from Cons.IH[OF skip(2)] show ?thesis .
  next
    case (undecodable err)
    then show ?thesis by (simp add: sends_def)
  next
    case (publish_fails err)
    then show ?thesis by simp
  next
    case (upsert_fails err)
    then show ?thesis by simp
  next
    case (advance pub w3 rest)
    from Cons.IH[OF advance(7)] advance(4,5) show ?thesis
      by (simp add: advance(8) positions_set_append sends_append) (simp add: sends_def)
  qed
qed


lemma filter_fst_own: "\<forall>p \<in> set ps. fst p = t \<Longrightarrow> filter (\<lambda>p. fst p = t) ps = ps"
  by (induction ps) auto

lemma filter_fst_other:
  "\<forall>p \<in> set ps. fst p = t \<Longrightarrow> t \<noteq> t' \<Longrightarrow> filter (\<lambda>p. fst p = t') ps = []"
  by (induction ps) auto

lemma combine_positions:
  assumes "\<forall>p \<in> set a. fst p = ''Cliente''" "\<forall>p \<in> set b. fst p = ''Produto''"
          "\<forall>p \<in> set c. fst p = ''Pedido''"
  shows "filter (\<lambda>p. fst p = ''Cliente'') (a @ b @ c) = a"
        "filter (\<lambda>p. fst p = ''Produto'') (a @ b @ c) = b"
        "filter (\<lambda>p. fst p = ''Pedido'') (a @ b @ c) = c"
  using assms
  by (simp_all add: filter_fst_own filter_fst_other[of a "''Cliente''"]
        filter_fst_other[of b "''Produto''"] filter_fst_other[of c "''Pedido''"])

lemma select_log_same_log:
  "event_log d1 = event_log d \<Longrightarrow> select_log d1 t lp = select_log d t lp"
  by (simp add: select_log_def)

text \<open>What one \<^verbatim>\<open>process...Changes\<close> call wrote, against the rows it read.\<close>

lemma processChanges_positions:
  assumes "processChanges spec env b positions d w = (res, d', w', effs)"
  shows "(\<exists>rest. map (\<lambda>r. (table spec, row_id r))
                   (filter (\<lambda>r. event_type r = ''INSERT'')
                      (select_log d (table spec) (lastPosition_of positions (table spec)))) =
                 positions_set effs @ rest \<and> (res = None \<longrightarrow> rest = [])) \<and>
         (\<forall>p \<in> set (positions_set effs). fst p = table spec) \<and>
         length (positions_set effs) \<le> length (sends effs) \<and>
         length (sends effs) \<le> Suc (length (positions_set effs)) \<and>
         (res = None \<longrightarrow> length (sends effs) = length (positions_set effs))"
proof -
  let ?lp = "lastPosition_of positions (table spec)"
  let ?full = "map (\<lambda>r. (table spec, row_id r))
                 (filter (\<lambda>r. event_type r = ''INSERT'') (select_log d (table spec) ?lp))"
  obtain q w1 where q: "e_db_fails env (SelectLog (table spec) ?lp) w = (q, w1)"
    by (metis prod.exhaust)
  show ?thesis
  proof (cases q)
    case (Some err)
    with assms q show ?thesis by (auto simp: processChanges_def sends_def)
  next
    case None
    with assms q have
      run: "process_rows env b spec (select_log d (table spec) ?lp) d w1 = (res, d', w', effs)"
      by (simp add: processChanges_def)
    from process_rows_result[OF run, of None] obtain rest where
      pre: "?full = positions_set effs @ rest" and
      ex: "res = None \<longrightarrow> positions_set effs = ?full \<and>
             length (sends effs) =
               length (filter (\<lambda>r. event_type r = ''INSERT'') (select_log d (table spec) ?lp))"
      by blast
    have own: "\<forall>p \<in> set (positions_set effs). fst p = table spec"
    proof
      fix p assume "p \<in> set (positions_set effs)"
      then have "p \<in> set ?full" unfolding pre by simp
      then show "fst p = table spec" by auto
    qed
    have r0: "res = None \<longrightarrow> rest = []" using pre ex by auto
    have eq: "res = None \<longrightarrow> length (sends effs) = length (positions_set effs)"
      using ex by auto
    from pre r0 own eq process_rows_sends[OF run] show ?thesis by blast
  qed
qed


text \<open>What a scan cycle wrote, per entity type, against the rows of the log that are
  above the cursor at the start of the cycle.\<close>

lemma checkForChanges_positions:
  assumes run: "checkForChanges env b d w = (res, d', w', effs)"
  shows "(\<forall>t \<in> {''Cliente'', ''Produto'', ''Pedido''}.
            \<exists>rest. map (\<lambda>r. (t, row_id r))
                     (filter (\<lambda>r. event_type r = ''INSERT'') (select_log d t (cursor d t))) =
                   filter (\<lambda>p. fst p = t) (positions_set effs) @ rest \<and>
                   (res = None \<longrightarrow> rest = [])) \<and>
         (\<forall>p \<in> set (positions_set effs). fst p \<in> {''Cliente'', ''Produto'', ''Pedido''}) \<and>
         length (positions_set effs) \<le> length (sends effs) \<and>
         length (sends effs) \<le> Suc (length (positions_set effs)) \<and>
         (res = None \<longrightarrow> length (sends effs) = length (positions_set effs))"
proof -
  let ?full = "\<lambda>t. map (\<lambda>r. (t, row_id r))
                 (filter (\<lambda>r. event_type r = ''INSERT'') (select_log d t (cursor d t)))"
  obtain c0 w0 where c0: "e_db_fails env PoolConnect w = (c0, w0)" by (metis prod.exhaust)
  obtain c1 w1 where c1: "e_db_fails env SelectPositions w0 = (c1, w1)" by (metis prod.exhaust)
  show ?thesis
  proof (cases "c0 = None \<and> c1 = None")
    case False
    with run c0 c1 have "res \<noteq> None" "positions_set effs = []" "sends effs = []"
      by (cases c0; cases c1; auto simp: checkForChanges_def sends_def)+
    then show ?thesis by auto
  next
    case True
    let ?ps = "read_positions d"
    obtain r1 d1 w2 e1 where p1: "processClienteChanges env b ?ps d w1 = (r1, d1, w2, e1)"
      by (metis prod_cases4)
    obtain r2 d2 w3 e2 where p2: "processProdutoChanges env b ?ps d1 w2 = (r2, d2, w3, e2)"
      by (metis prod_cases4)
    obtain r3 d3 w4 e3 where p3: "processPedidoChanges env b ?ps d2 w3 = (r3, d3, w4, e3)"
      by (metis prod_cases4)
    note scan = checkForChanges_scan[OF c0[unfolded conjunct1[OF True]]
                  c1[unfolded conjunct2[OF True]] p1 p2 p3]
    note q1 = p1[unfolded processClienteChanges_def]
    note q2 = p2[unfolded processProdutoChanges_def]
    note q3 = p3[unfolded processPedidoChanges_def]
    have l1: "event_log d1 = event_log d" using processChanges_frame[OF q1, of None] by blast
    have l2: "event_log d2 = event_log d"
      using processChanges_frame[OF q2, of None] l1 by simp
    have lp: "lastPosition_of ?ps t = cursor d t" for t by (simp add: cursor_def)
    note g1 = processChanges_positions[OF q1, unfolded tables_distinct lp]
    note g2 = processChanges_positions[OF q2,
                unfolded tables_distinct lp select_log_same_log[OF l1]]
    note g3 = processChanges_positions[OF q3,
                unfolded tables_distinct lp select_log_same_log[OF l2]]
    from g1 obtain x1 where
      x1: "?full ''Cliente'' = positions_set e1 @ x1" "r1 = None \<longrightarrow> x1 = []" by blast
    from g2 obtain x2 where
      x2: "?full ''Produto'' = positions_set e2 @ x2" "r2 = None \<longrightarrow> x2 = []" by blast
    from g3 obtain x3 where
      x3: "?full ''Pedido'' = positions_set e3 @ x3" "r3 = None \<longrightarrow> x3 = []" by blast
    have o1: "\<forall>p \<in> set (positions_set e1). fst p = ''Cliente''" using g1 by blast
    have o2: "\<forall>p \<in> set (positions_set e2). fst p = ''Produto''" using g2 by blast
    have o3: "\<forall>p \<in> set (positions_set e3). fst p = ''Pedido''" using g3 by blast
    have n1: "length (positions_set e1) \<le> length (sends e1)"
             "length (sends e1) \<le> Suc (length (positions_set e1))"
             "r1 = None \<longrightarrow> length (sends e1) = length (positions_set e1)"
      using g1 by blast+
    have n2: "length (positions_set e2) \<le> length (sends e2)"
             "length (sends e2) \<le> Suc (length (positions_set e2))"
             "r2 = None \<longrightarrow> length (sends e2) = length (positions_set e2)"
      using g2 by blast+
    have n3: "length (positions_set e3) \<le> length (sends e3)"
             "length (sends e3) \<le> Suc (length (positions_set e3))"
             "r3 = None \<longrightarrow> length (sends e3) = length (positions_set e3)"
      using g3 by blast+
    have nil: "\<forall>p \<in> set ([] :: (string \<times> string) list). fst p = t" for t by simp
    consider (a) "r1 \<noteq> None" | (b) "r1 = None" "r2 \<noteq> None" | (c) "r1 = None" "r2 = None"
      by blast
    then show ?thesis
    proof cases
      case a
      with scan run have e: "res = r1" "effs = e1 @ [ReleaseClient]" by simp_all
      have ps: "positions_set effs = positions_set e1 @ [] @ []"
        by (simp add: e positions_set_append)
      have sn: "sends effs = sends e1" by (simp add: e sends_def)
      note f = combine_positions[OF o1 nil nil]
      from a e x1 n1 o1 show ?thesis
        unfolding ps sn by (auto simp: f)
    next
      case b
      with scan run have e: "res = r2" "effs = e1 @ e2 @ [ReleaseClient]" by simp_all
      have ps: "positions_set effs = positions_set e1 @ positions_set e2 @ []"
        by (simp add: e positions_set_append)
      have sn: "sends effs = sends e1 @ sends e2" by (simp add: e sends_def)
      note f = combine_positions[OF o1 o2 nil]
      from b e x1 x2 n1 n2 o1 o2 show ?thesis
        unfolding ps sn by (auto simp: f)
    next
      case c
      with scan run have e: "res = r3" "effs = e1 @ e2 @ e3 @ [ReleaseClient]" by simp_all
      have ps: "positions_set effs = positions_set e1 @ positions_set e2 @ positions_set e3"
        by (simp add: e positions_set_append)
      have sn: "sends effs = sends e1 @ sends e2 @ sends e3" by (simp add: e sends_def)
      note f = combine_positions[OF o1 o2 o3]
      from c e x1 x2 x3 n1 n2 n3 o1 o2 o3 show ?thesis
        unfolding ps sn by (auto simp: f)
    qed
  qed
qed


lemma checkForChanges_tracked:
  assumes run: "checkForChanges env b d w = (res, d', w', effs)"
  shows "\<forall>spec \<in> set tracked.
            \<exists>rest. map (\<lambda>r. (table spec, row_id r))
                     (filter (\<lambda>r. event_type r = ''INSERT'')
                        (select_log d (table spec) (cursor d (table spec)))) =
                   filter (\<lambda>p. fst p = table spec) (positions_set effs) @ rest \<and>
                   (res = None \<longrightarrow> rest = [])"
    and "\<forall>p \<in> set (positions_set effs). fst p \<in> set (map table tracked)"
  using checkForChanges_positions[OF run]
  by (simp_all add: tracked_def tables_distinct)

text \<open>
  C6. In a scan cycle every write of a cursor comes directly after the completion
  line of a successful \<^verbatim>\<open>publish\<close>. The ids written for an entity type are, in order,
  those of an initial part of the \<^verbatim>\<open>INSERT\<close> rows of that type above the cursor read
  at the start of the cycle; no write is made for anything else, there are at least
  as many sends as writes, and the cursor table after the cycle is the table before
  it with exactly those writes applied. Row by row: when the \<^verbatim>\<open>publish\<close> of the event
  built from a row fails, the method ends with that error and the database as it was
  before the row; when it succeeds (one send, ending with the completion line) and
  the write succeeds, the effects of the row are those of that \<^verbatim>\<open>publish\<close> followed
  by the write of that row's id, and the loop goes on from there. For a change log
  whose ids are UUIDs, the cursor of every entity type after a cycle, and after any
  number of cycles, is greater than or equal to its value before.
\<close>

theorem cursor_written_after_publish:
  assumes "\<forall>r \<in> set (event_log d). is_uuid (row_id r)"
      and "checkForChanges env b d w = (res, d', w', effs)"
  shows "follows_publish None effs \<and>
         cdc_position d' = apply_positions (positions_set effs) (cdc_position d) \<and>
         (\<forall>spec \<in> set tracked.
            \<exists>rest. map (\<lambda>r. (table spec, row_id r))
                     (filter (\<lambda>r. event_type r = ''INSERT'')
                        (select_log d (table spec) (cursor d (table spec)))) =
                   filter (\<lambda>p. fst p = table spec) (positions_set effs) @ rest \<and>
                   (res = None \<longrightarrow> rest = [])) \<and>
         (\<forall>p \<in> set (positions_set effs). fst p \<in> set (map table tracked)) \<and>
         length (positions_set effs) \<le> length (sends effs) \<and>
         (\<forall>t. cursor d t \<le> cursor d' t) \<and>
         (\<forall>n t. cursor d t \<le> cursor (fst (poll n env b d w)) t) \<and>
         (\<forall>spec row rows payload stamp v v1 err v2 fx dd.
            event_type row = ''INSERT'' \<and>
            e_decode env (table spec) (row_data row) = Inr payload \<and>
            e_fresh env v = (stamp, v1) \<and>
            publish (e_stringify env) (e_chan_publish env) b
              (criarEvent spec stamp payload
                 (case correlation_id row of None \<Rightarrow> [] | Some c \<Rightarrow> c) ''cdc'') v1
              = (Inl err, v2, fx) \<longrightarrow>
            positions_set fx = [] \<and>
            process_rows env b spec (row # rows) dd v = (Some err, dd, v2, fx)) \<and>
         (\<forall>spec row rows payload stamp v v1 u v2 fx v3 dd.
            event_type row = ''INSERT'' \<and>
            e_decode env (table spec) (row_data row) = Inr payload \<and>
            e_fresh env v = (stamp, v1) \<and>
            publish (e_stringify env) (e_chan_publish env) b
              (criarEvent spec stamp payload
                 (case correlation_id row of None \<Rightarrow> [] | Some c \<Rightarrow> c) ''cdc'') v1
              = (Inr u, v2, fx) \<and>
            e_db_fails env (UpsertPosition (table spec) (row_id row)) v2 = (None, v3) \<longrightarrow>
            length (sends fx) = 1 \<and> positions_set fx = [] \<and>
            last fx = Log Debug ''Event published'' \<and>
            process_rows env b spec (row # rows) dd v =
              (case process_rows env b spec rows
                      (dd\<lparr>cdc_position :=
                            (cdc_position dd)(table spec \<mapsto> Some (row_id row))\<rparr>) v3 of
                 (r, d2, v4, fx') \<Rightarrow>
                   (r, d2, v4,
                    fx @ [SetPosition (table spec) (row_id row),
                          Log Debug (table spec @ '' event published'')] @ fx')))"
proof -
  note r = checkForChanges_result[OF assms(2)]
  note p = checkForChanges_positions[OF assms(2)]
  have fail: "positions_set fx = [] \<and>
              process_rows env b spec (row # rows) dd v = (Some err, dd, v2, fx)"
    if "event_type row = ''INSERT''" "e_decode env (table spec) (row_data row) = Inr payload"
       "e_fresh env v = (stamp, v1)"
       "publish (e_stringify env) (e_chan_publish env) b
              (criarEvent spec stamp payload
                 (case correlation_id row of None \<Rightarrow> [] | Some c \<Rightarrow> c) ''cdc'') v1
              = (Inl err, v2, fx)"
    for spec row rows payload stamp v v1 err v2 fx dd
    using process_rows_publish_fails[OF that] publish_failed[OF that(4)] by blast
  have adv: "length (sends fx) = 1 \<and> positions_set fx = [] \<and>
            last fx = Log Debug ''Event published'' \<and>
            process_rows env b spec (row # rows) dd v =
              (case process_rows env b spec rows
                      (dd\<lparr>cdc_position :=
                            (cdc_position dd)(table spec \<mapsto> Some (row_id row))\<rparr>) v3 of
                 (r, d2, v4, fx') \<Rightarrow>
                   (r, d2, v4,
                    fx @ [SetPosition (table spec) (row_id row),
                          Log Debug (table spec @ '' event published'')] @ fx'))"
    if "event_type row = ''INSERT''" "e_decode env (table spec) (row_data row) = Inr payload"
       "e_fresh env v = (stamp, v1)"
       "publish (e_stringify env) (e_chan_publish env) b
              (criarEvent spec stamp payload
                 (case correlation_id row of None \<Rightarrow> [] | Some c \<Rightarrow> c) ''cdc'') v1
              = (Inr u, v2, fx)"
       "e_db_fails env (UpsertPosition (table spec) (row_id row)) v2 = (None, v3)"
    for spec row rows payload stamp v v1 u v2 fx v3 dd
    using that publish_ok[OF that(4)] by (simp add: Let_def)
  have mono: "\<forall>t. cursor d t \<le> cursor d' t" using r assms(1) by blast
  have many: "\<forall>n t. cursor d t \<le> cursor (fst (poll n env b d w)) t"
    by (intro allI poll_monotone[OF assms(1)])
  have after: "follows_publish None effs" using r by blast
  have tab: "cdc_position d' = apply_positions (positions_set effs) (cdc_position d)"
    using r by blast
  have cnt: "length (positions_set effs) \<le> length (sends effs)" using p by blast
  have failed: "\<forall>spec row rows payload stamp v v1 err v2 fx dd.
            event_type row = ''INSERT'' \<and>
            e_decode env (table spec) (row_data row) = Inr payload \<and>
            e_fresh env v = (stamp, v1) \<and>
            publish (e_stringify env) (e_chan_publish env) b
              (criarEvent spec stamp payload
                 (case correlation_id row of None \<Rightarrow> [] | Some c \<Rightarrow> c) ''cdc'') v1
              = (Inl err, v2, fx) \<longrightarrow>
            positions_set fx = [] \<and>
            process_rows env b spec (row # rows) dd v = (Some err, dd, v2, fx)"
    by (intro allI impI, elim conjE, rule fail)
  have advanced: "\<forall>spec row rows payload stamp v v1 u v2 fx v3 dd.
            event_type row = ''INSERT'' \<and>
            e_decode env (table spec) (row_data row) = Inr payload \<and>
            e_fresh env v = (stamp, v1) \<and>
            publish (e_stringify env) (e_chan_publish env) b
              (criarEvent spec stamp payload
                 (case correlation_id row of None \<Rightarrow> [] | Some c \<Rightarrow> c) ''cdc'') v1
              = (Inr u, v2, fx) \<and>
            e_db_fails env (UpsertPosition (table spec) (row_id row)) v2 = (None, v3) \<longrightarrow>
            length (sends fx) = 1 \<and> positions_set fx = [] \<and>
            last fx = Log Debug ''Event published'' \<and>
            process_rows env b spec (row # rows) dd v =
              (case process_rows env b spec rows
                      (dd\<lparr>cdc_position :=
                            (cdc_position dd)(table spec \<mapsto> Some (row_id row))\<rparr>) v3 of
                 (r, d2, v4, fx') \<Rightarrow>
                   (r, d2, v4,
                    fx @ [SetPosition (table spec) (row_id row),
                          Log Debug (table spec @ '' event published'')] @ fx'))"
    by (intro allI impI, elim conjE, rule adv)
  from after tab checkForChanges_tracked[OF assms(2)] cnt mono many failed advanced
  show ?thesis by (intro conjI)
qed


theorem cursor_written_after_publish_witness:
  "checkForChanges example_env connected_bus two_inserts 0 =
     (None,
      two_inserts\<lparr>cdc_position :=
        (\<lambda>t. None)(''Cliente'' \<mapsto> Some ''00000000-0000-4000-8000-00000000000b'')\<rparr>,
      2,
      [Send ''agentic.events'' ''Cliente.ClienteCriado'' ''{}''
         [(''x-event-id'', ''event-0''),
          (''x-correlation-id'', ''c0a80101-0000-4000-8000-000000000001'')],
       Log Debug ''Event published'',
       SetPosition ''Cliente'' ''00000000-0000-4000-8000-00000000000a'',
       Log Debug ''Cliente event published'',
       Send ''agentic.events'' ''Cliente.ClienteCriado'' ''{}''
         [(''x-event-id'', ''event-1''),
          (''x-correlation-id'', ''c0a80101-0000-4000-8000-000000000001'')],
       Log Debug ''Event published'',
       SetPosition ''Cliente'' ''00000000-0000-4000-8000-00000000000b'',
       Log Debug ''Cliente event published'',
       ReleaseClient]) \<and>
   checkForChanges closing_env connected_bus two_inserts 0 =
     (Some (Thrown ''Channel closed''),
      two_inserts\<lparr>cdc_position :=
        (\<lambda>t. None)(''Cliente'' \<mapsto> Some ''00000000-0000-4000-8000-00000000000a'')\<rparr>,
      2,
      [Send ''agentic.events'' ''Cliente.ClienteCriado'' ''{}''
         [(''x-event-id'', ''event-0''),
          (''x-correlation-id'', ''c0a80101-0000-4000-8000-000000000001'')],
       Log Debug ''Event published'',
       SetPosition ''Cliente'' ''00000000-0000-4000-8000-00000000000a'',
       Log Debug ''Cliente event published'',
       Send ''agentic.events'' ''Cliente.ClienteCriado'' ''{}''
         [(''x-event-id'', ''event-1''),
          (''x-correlation-id'', ''c0a80101-0000-4000-8000-000000000001'')],
       Log Error ''Failed to publish event'',
       ReleaseClient]) \<and>
   cursor two_inserts ''Cliente'' = [] \<and>
   cursor (two_inserts\<lparr>cdc_position :=
        (\<lambda>t. None)(''Cliente'' \<mapsto> Some ''00000000-0000-4000-8000-00000000000a'')\<rparr>) ''Cliente''
     = ''00000000-0000-4000-8000-00000000000a'' \<and>
   cursor (two_inserts\<lparr>cdc_position :=
        (\<lambda>t. None)(''Cliente'' \<mapsto> Some ''00000000-0000-4000-8000-00000000000b'')\<rparr>) ''Cliente''
     = ''00000000-0000-4000-8000-00000000000b'' \<and>
   (\<forall>t. cursor two_inserts t \<le>
         cursor (two_inserts\<lparr>cdc_position :=
           (\<lambda>t. None)(''Cliente'' \<mapsto> Some ''00000000-0000-4000-8000-00000000000a'')\<rparr>) t)"
proof -
  have uu: "\<forall>r \<in> set (event_log two_inserts). is_uuid (row_id r)"
    by (simp add: two_inserts_def example_row_def is_uuid_def is_hex_def)
  have run1: "checkForChanges example_env connected_bus two_inserts 0 =
     (None,
      two_inserts\<lparr>cdc_position :=
        (\<lambda>t. None)(''Cliente'' \<mapsto> Some ''00000000-0000-4000-8000-00000000000b'')\<rparr>,
      2,
      [Send ''agentic.events'' ''Cliente.ClienteCriado'' ''{}''
         [(''x-event-id'', ''event-0''),
          (''x-correlation-id'', ''c0a80101-0000-4000-8000-000000000001'')],
       Log Debug ''Event published'',
       SetPosition ''Cliente'' ''00000000-0000-4000-8000-00000000000a'',
       Log Debug ''Cliente event published'',
       Send ''agentic.events'' ''Cliente.ClienteCriado'' ''{}''
         [(''x-event-id'', ''event-1''),
          (''x-correlation-id'', ''c0a80101-0000-4000-8000-000000000001'')],
       Log Debug ''Event published'',
       SetPosition ''Cliente'' ''00000000-0000-4000-8000-00000000000b'',
       Log Debug ''Cliente event published'',
       ReleaseClient])"
    by (simp add: checkForChanges_def processClienteChanges_def processProdutoChanges_def
        processPedidoChanges_def processChanges_def Cliente_def Produto_def Pedido_def
        select_log_def read_positions_def lastPosition_of_def lsn_of_def publish_def
        criarEvent_def example_env_def example_row_def connected_bus_def new_bus_def
        two_inserts_def MAIN_EXCHANGE_def show_nat.simps Let_def)
  have run2: "checkForChanges closing_env connected_bus two_inserts 0 =
     (Some (Thrown ''Channel closed''),
      two_inserts\<lparr>cdc_position :=
        (\<lambda>t. None)(''Cliente'' \<mapsto> Some ''00000000-0000-4000-8000-00000000000a'')\<rparr>,
      2,
      [Send ''agentic.events'' ''Cliente.ClienteCriado'' ''{}''
         [(''x-event-id'', ''event-0''),
          (''x-correlation-id'', ''c0a80101-0000-4000-8000-000000000001'')],
       Log Debug ''Event published'',
       SetPosition ''Cliente'' ''00000000-0000-4000-8000-00000000000a'',
       Log Debug ''Cliente event published'',
       Send ''agentic.events'' ''Cliente.ClienteCriado'' ''{}''
         [(''x-event-id'', ''event-1''),
          (''x-correlation-id'', ''c0a80101-0000-4000-8000-000000000001'')],
       Log Error ''Failed to publish event'',
       ReleaseClient])"
    by (simp add: checkForChanges_def processClienteChanges_def processProdutoChanges_def
        processPedidoChanges_def processChanges_def Cliente_def Produto_def Pedido_def
        select_log_def read_positions_def lastPosition_of_def lsn_of_def publish_def
        criarEvent_def example_env_def closing_env_def example_row_def connected_bus_def
        new_bus_def two_inserts_def MAIN_EXCHANGE_def show_nat.simps Let_def)
  from cursor_written_after_publish[OF uu run2, THEN conjunct2, THEN conjunct2, THEN conjunct2,
         THEN conjunct2, THEN conjunct2, THEN conjunct1]
  have mono: "\<forall>t. cursor two_inserts t \<le>
         cursor (two_inserts\<lparr>cdc_position :=
           (\<lambda>t. None)(''Cliente'' \<mapsto> Some ''00000000-0000-4000-8000-00000000000a'')\<rparr>) t" .
  have cur: "cursor two_inserts ''Cliente'' = []"
   "cursor (two_inserts\<lparr>cdc_position :=
        (\<lambda>t. None)(''Cliente'' \<mapsto> Some ''00000000-0000-4000-8000-00000000000a'')\<rparr>) ''Cliente''
     = ''00000000-0000-4000-8000-00000000000a''"
   "cursor (two_inserts\<lparr>cdc_position :=
        (\<lambda>t. None)(''Cliente'' \<mapsto> Some ''00000000-0000-4000-8000-00000000000b'')\<rparr>) ''Cliente''
     = ''00000000-0000-4000-8000-00000000000b''"
    by (simp_all add: cursor_def read_positions_def lastPosition_of_def lsn_of_def
          two_inserts_def)
  from run1 run2 cur mono show ?thesis by (intro conjI)
qed

text \<open>One row on its own: a row that is not an \<^verbatim>\<open>INSERT\<close> does nothing; an
  \<^verbatim>\<open>INSERT\<close> row is either translated (one send, then its id as the cursor) or ends
  the method with an error and the database unchanged.\<close>

lemma process_rows_single:
  "event_type row = ''INSERT'' \<Longrightarrow>
   (case process_rows env b spec [row] dd v of
      (None, d2, v2, fx) \<Rightarrow>
        length (sends fx) = 1 \<and> positions_set fx = [(table spec, row_id row)] \<and>
        d2 = dd\<lparr>cdc_position := (cdc_position dd)(table spec \<mapsto> Some (row_id row))\<rparr>
    | (Some err, d2, v2, fx) \<Rightarrow>
        length (sends fx) \<le> 1 \<and> positions_set fx = [] \<and> d2 = dd)"
proof -
  assume ins: "event_type row = ''INSERT''"
  obtain res d2 v2 fx where run: "process_rows env b spec [row] dd v = (res, d2, v2, fx)"
    by (metis prod_cases4)
  from run have "(case (res, d2, v2, fx) of
      (None, d2, v2, fx) \<Rightarrow>
        length (sends fx) = 1 \<and> positions_set fx = [(table spec, row_id row)] \<and>
        d2 = dd\<lparr>cdc_position := (cdc_position dd)(table spec \<mapsto> Some (row_id row))\<rparr>
    | (Some err, d2, v2, fx) \<Rightarrow>
        length (sends fx) \<le> 1 \<and> positions_set fx = [] \<and> d2 = dd)"
  proof (cases rule: process_rows_cases)
    case skip
    with ins show ?thesis by simp
  next
    case (undecodable err)
    then show ?thesis by (simp add: sends_def)
  next
    case (publish_fails err)
    then show ?thesis by simp
  next
    case (upsert_fails err)
    then show ?thesis by simp
  next
    case (advance pub w3 rest)
    from advance(7) have "res = None" "rest = []"
      "d2 = dd\<lparr>cdc_position := (cdc_position dd)(table spec \<mapsto> Some (row_id row))\<rparr>"
      by simp_all
    with advance(4,5) show ?thesis
      by (simp add: advance(8) positions_set_append sends_append) (simp add: sends_def)
  qed
  with run show ?thesis by simp
qed

text \<open>
  C1, as amended. In a scan cycle, for each tracked entity type (the cycle runs
  \<^verbatim>\<open>processClienteChanges\<close>, \<^verbatim>\<open>processProdutoChanges\<close> and \<^verbatim>\<open>processPedidoChanges\<close>,
  which are \<open>processChanges\<close> at \<open>Cliente\<close>, \<open>Produto\<close> and \<open>Pedido\<close>, in that order
  and with the cursors read at the start of the cycle), the rows read are those of
  the entity type whose id is greater than the cursor read at the start of the cycle,
  or all of them when that cursor is empty, in ascending id order. The rows
  translated (published, then recorded as the cursor) are, in that order, an initial
  part of the rows read whose \<^verbatim>\<open>event_type\<close> is \<^verbatim>\<open>INSERT\<close>, and all of them when the
  cycle ends without error, with one send each (one more send than writes at most,
  when the cycle ends with an error). Rows before an error are translated: the loop
  over \<open>xs @ ys\<close> is the loop over \<open>xs\<close> followed, when that raised no error, by the
  loop over \<open>ys\<close> from where it ended; a row that is not an \<^verbatim>\<open>INSERT\<close> is passed
  over with no effect, and an \<^verbatim>\<open>INSERT\<close> row is either translated or ends the method
  with an error and the database as it was.
\<close>

theorem rows_translated:
  assumes "checkForChanges env b d w = (res, d', w', effs)"
  shows "(\<forall>spec \<in> set tracked.
            \<exists>rest. map (\<lambda>r. (table spec, row_id r))
                     (filter (\<lambda>r. event_type r = ''INSERT'')
                        (select_log d (table spec) (cursor d (table spec)))) =
                   filter (\<lambda>p. fst p = table spec) (positions_set effs) @ rest \<and>
                   (res = None \<longrightarrow> rest = [])) \<and>
         (\<forall>p \<in> set (positions_set effs). fst p \<in> set (map table tracked)) \<and>
         length (positions_set effs) \<le> length (sends effs) \<and>
         length (sends effs) \<le> Suc (length (positions_set effs)) \<and>
         (res = None \<longrightarrow> length (sends effs) = length (positions_set effs)) \<and>
         (\<forall>t. sorted (map row_id (select_log d t (cursor d t))) \<and>
              set (select_log d t (cursor d t)) =
                {r \<in> set (event_log d). entity_type r = t \<and>
                   (cursor d t = [] \<or> cursor d t < row_id r)}) \<and>
         (\<forall>w0 w1. e_db_fails env PoolConnect w = (None, w0) \<and>
                  e_db_fails env SelectPositions w0 = (None, w1) \<longrightarrow>
            (res, d', w', effs) =
              (case processClienteChanges env b (read_positions d) d w1 of
                 (Some err, d1, w2, e1) \<Rightarrow> (Some err, d1, w2, e1 @ [ReleaseClient])
               | (None, d1, w2, e1) \<Rightarrow>
                   (case processProdutoChanges env b (read_positions d) d1 w2 of
                      (Some err, d2, w3, e2) \<Rightarrow> (Some err, d2, w3, e1 @ e2 @ [ReleaseClient])
                    | (None, d2, w3, e2) \<Rightarrow>
                        (case processPedidoChanges env b (read_positions d) d2 w3 of
                           (r3, d3, w4, e3) \<Rightarrow>
                             (r3, d3, w4, e1 @ e2 @ e3 @ [ReleaseClient]))))) \<and>
         processClienteChanges env = processChanges Cliente env \<and>
         processProdutoChanges env = processChanges Produto env \<and>
         processPedidoChanges env = processChanges Pedido env \<and>
         (\<forall>spec dd v.
            processChanges spec env b (read_positions d) dd v =
              (case e_db_fails env (SelectLog (table spec) (cursor d (table spec))) v of
                 (Some err, v') \<Rightarrow> (Some err, dd, v', [])
               | (None, v') \<Rightarrow>
                   process_rows env b spec
                     (select_log dd (table spec) (cursor d (table spec))) dd v')) \<and>
         (\<forall>spec xs ys dd v.
            process_rows env b spec (xs @ ys) dd v =
              (case process_rows env b spec xs dd v of
                 (None, d1, v1, e1) \<Rightarrow>
                   (case process_rows env b spec ys d1 v1 of
                      (r, d2, v2, e2) \<Rightarrow> (r, d2, v2, e1 @ e2))
               | (Some err, d1, v1, e1) \<Rightarrow> (Some err, d1, v1, e1))) \<and>
         (\<forall>spec row dd v.
            process_rows env b spec [] dd v = (None, dd, v, []) \<and>
            (event_type row \<noteq> ''INSERT'' \<longrightarrow>
               process_rows env b spec [row] dd v = (None, dd, v, [])) \<and>
            (event_type row = ''INSERT'' \<longrightarrow>
               (case process_rows env b spec [row] dd v of
                  (None, d2, v2, fx) \<Rightarrow>
                    length (sends fx) = 1 \<and>
                    positions_set fx = [(table spec, row_id row)] \<and>
                    d2 = dd\<lparr>cdc_position :=
                              (cdc_position dd)(table spec \<mapsto> Some (row_id row))\<rparr>
                | (Some err, d2, v2, fx) \<Rightarrow>
                    length (sends fx) \<le> 1 \<and> positions_set fx = [] \<and> d2 = dd)))"
proof -
  note p = checkForChanges_positions[OF assms]
  have c1: "length (positions_set effs) \<le> length (sends effs)" using p by blast
  have c2: "length (sends effs) \<le> Suc (length (positions_set effs))" using p by blast
  have c3: "res = None \<longrightarrow> length (sends effs) = length (positions_set effs)"
    using p by blast
  have rd: "\<forall>t. sorted (map row_id (select_log d t (cursor d t))) \<and>
              set (select_log d t (cursor d t)) =
                {r \<in> set (event_log d). entity_type r = t \<and>
                   (cursor d t = [] \<or> cursor d t < row_id r)}"
    by (simp add: select_log_sorted select_log_set)
  have cyc: "\<forall>w0 w1. e_db_fails env PoolConnect w = (None, w0) \<and>
                  e_db_fails env SelectPositions w0 = (None, w1) \<longrightarrow>
            (res, d', w', effs) =
              (case processClienteChanges env b (read_positions d) d w1 of
                 (Some err, d1, w2, e1) \<Rightarrow> (Some err, d1, w2, e1 @ [ReleaseClient])
               | (None, d1, w2, e1) \<Rightarrow>
                   (case processProdutoChanges env b (read_positions d) d1 w2 of
                      (Some err, d2, w3, e2) \<Rightarrow> (Some err, d2, w3, e1 @ e2 @ [ReleaseClient])
                    | (None, d2, w3, e2) \<Rightarrow>
                        (case processPedidoChanges env b (read_positions d) d2 w3 of
                           (r3, d3, w4, e3) \<Rightarrow>
                             (r3, d3, w4, e1 @ e2 @ e3 @ [ReleaseClient]))))"
    using assms[symmetric] by (simp add: checkForChanges_def Let_def)
  have n1: "processClienteChanges env = processChanges Cliente env"
    by (simp add: processClienteChanges_def)
  have n2: "processProdutoChanges env = processChanges Produto env"
    by (simp add: processProdutoChanges_def)
  have n3: "processPedidoChanges env = processChanges Pedido env"
    by (simp add: processPedidoChanges_def)
  have pc: "\<forall>spec dd v.
            processChanges spec env b (read_positions d) dd v =
              (case e_db_fails env (SelectLog (table spec) (cursor d (table spec))) v of
                 (Some err, v') \<Rightarrow> (Some err, dd, v', [])
               | (None, v') \<Rightarrow>
                   process_rows env b spec
                     (select_log dd (table spec) (cursor d (table spec))) dd v')"
    unfolding cursor_def by (simp add: processChanges_def Let_def)
  have app: "\<forall>spec xs ys dd v.
            process_rows env b spec (xs @ ys) dd v =
              (case process_rows env b spec xs dd v of
                 (None, d1, v1, e1) \<Rightarrow>
                   (case process_rows env b spec ys d1 v1 of
                      (r, d2, v2, e2) \<Rightarrow> (r, d2, v2, e1 @ e2))
               | (Some err, d1, v1, e1) \<Rightarrow> (Some err, d1, v1, e1))"
    by (intro allI process_rows_append)
  have one: "\<forall>spec row dd v.
            process_rows env b spec [] dd v = (None, dd, v, []) \<and>
            (event_type row \<noteq> ''INSERT'' \<longrightarrow>
               process_rows env b spec [row] dd v = (None, dd, v, [])) \<and>
            (event_type row = ''INSERT'' \<longrightarrow>
               (case process_rows env b spec [row] dd v of
                  (None, d2, v2, fx) \<Rightarrow>
                    length (sends fx) = 1 \<and>
                    positions_set fx = [(table spec, row_id row)] \<and>
                    d2 = dd\<lparr>cdc_position :=
                              (cdc_position dd)(table spec \<mapsto> Some (row_id row))\<rparr>
                | (Some err, d2, v2, fx) \<Rightarrow>
                    length (sends fx) \<le> 1 \<and> positions_set fx = [] \<and> d2 = dd))"
  proof (intro allI conjI impI)
    fix spec row dd v
    show "process_rows env b spec [] dd v = (None, dd, v, [])" by simp
    show "process_rows env b spec [row] dd v = (None, dd, v, [])"
      if "event_type row \<noteq> ''INSERT''" using that by simp
    show "case process_rows env b spec [row] dd v of
                  (None, d2, v2, fx) \<Rightarrow>
                    length (sends fx) = 1 \<and>
                    positions_set fx = [(table spec, row_id row)] \<and>
                    d2 = dd\<lparr>cdc_position :=
                              (cdc_position dd)(table spec \<mapsto> Some (row_id row))\<rparr>
                | (Some err, d2, v2, fx) \<Rightarrow>
                    length (sends fx) \<le> 1 \<and> positions_set fx = [] \<and> d2 = dd"
      if "event_type row = ''INSERT''" using that by (rule process_rows_single)
  qed
  from checkForChanges_tracked[OF assms] c1 c2 c3 rd cyc n1 n2 n3 pc app one
  show ?thesis by (intro conjI)
qed


theorem rows_translated_witness:
  "checkForChanges example_env connected_bus three_clientes 0 =
     (None,
      three_clientes\<lparr>cdc_position :=
        (\<lambda>t. None)(''Cliente'' \<mapsto> Some ''00000000-0000-4000-8000-00000000000c'')\<rparr>,
      2,
      [Send ''agentic.events'' ''Cliente.ClienteCriado'' ''{}''
         [(''x-event-id'', ''event-0''),
          (''x-correlation-id'', ''c0a80101-0000-4000-8000-000000000001'')],
       Log Debug ''Event published'',
       SetPosition ''Cliente'' ''00000000-0000-4000-8000-00000000000b'',
       Log Debug ''Cliente event published'',
       Send ''agentic.events'' ''Cliente.ClienteCriado'' ''{}''
         [(''x-event-id'', ''event-1''),
          (''x-correlation-id'', ''c0a80101-0000-4000-8000-000000000001'')],
       Log Debug ''Event published'',
       SetPosition ''Cliente'' ''00000000-0000-4000-8000-00000000000c'',
       Log Debug ''Cliente event published'',
       ReleaseClient]) \<and>
   checkForChanges example_env connected_bus mixed_log 0 =
     (Some (Thrown ''Unexpected token''),
      mixed_log\<lparr>cdc_position :=
        (\<lambda>t. None)(''Cliente'' \<mapsto> Some ''00000000-0000-4000-8000-00000000000c'')\<rparr>,
      1,
      [Send ''agentic.events'' ''Cliente.ClienteCriado'' ''{}''
         [(''x-event-id'', ''event-0''),
          (''x-correlation-id'', ''c0a80101-0000-4000-8000-000000000001'')],
       Log Debug ''Event published'',
       SetPosition ''Cliente'' ''00000000-0000-4000-8000-00000000000c'',
       Log Debug ''Cliente event published'',
       ReleaseClient]) \<and>
   map (\<lambda>r. (row_id r, event_type r))
     (select_log mixed_log ''Cliente'' (cursor mixed_log ''Cliente'')) =
     [(''00000000-0000-4000-8000-00000000000b'', ''UPDATE''),
      (''00000000-0000-4000-8000-00000000000c'', ''INSERT''),
      (''00000000-0000-4000-8000-00000000000d'', ''INSERT'')] \<and>
   map (\<lambda>r. (''Cliente'', row_id r))
     (filter (\<lambda>r. event_type r = ''INSERT'')
        (select_log three_clientes ''Cliente'' (cursor three_clientes ''Cliente''))) =
   filter (\<lambda>p. fst p = ''Cliente'')
     (positions_set
      ([Send ''agentic.events'' ''Cliente.ClienteCriado'' ''{}''
         [(''x-event-id'', ''event-0''),
          (''x-correlation-id'', ''c0a80101-0000-4000-8000-000000000001'')],
       Log Debug ''Event published'',
       SetPosition ''Cliente'' ''00000000-0000-4000-8000-00000000000b'',
       Log Debug ''Cliente event published'',
       Send ''agentic.events'' ''Cliente.ClienteCriado'' ''{}''
         [(''x-event-id'', ''event-1''),
          (''x-correlation-id'', ''c0a80101-0000-4000-8000-000000000001'')],
       Log Debug ''Event published'',
       SetPosition ''Cliente'' ''00000000-0000-4000-8000-00000000000c'',
       Log Debug ''Cliente event published'',
       ReleaseClient] :: string envelope effect list))"
proof -
  have run1: "checkForChanges example_env connected_bus three_clientes 0 =
     (None,
      three_clientes\<lparr>cdc_position :=
        (\<lambda>t. None)(''Cliente'' \<mapsto> Some ''00000000-0000-4000-8000-00000000000c'')\<rparr>,
      2,
      [Send ''agentic.events'' ''Cliente.ClienteCriado'' ''{}''
         [(''x-event-id'', ''event-0''),
          (''x-correlation-id'', ''c0a80101-0000-4000-8000-000000000001'')],
       Log Debug ''Event published'',
       SetPosition ''Cliente'' ''00000000-0000-4000-8000-00000000000b'',
       Log Debug ''Cliente event published'',
       Send ''agentic.events'' ''Cliente.ClienteCriado'' ''{}''
         [(''x-event-id'', ''event-1''),
          (''x-correlation-id'', ''c0a80101-0000-4000-8000-000000000001'')],
       Log Debug ''Event published'',
       SetPosition ''Cliente'' ''00000000-0000-4000-8000-00000000000c'',
       Log Debug ''Cliente event published'',
       ReleaseClient])"
    by (simp add: checkForChanges_def processClienteChanges_def processProdutoChanges_def
        processPedidoChanges_def processChanges_def Cliente_def Produto_def Pedido_def
        select_log_def read_positions_def lastPosition_of_def lsn_of_def publish_def
        criarEvent_def example_env_def example_row_def connected_bus_def new_bus_def
        three_clientes_def MAIN_EXCHANGE_def show_nat.simps Let_def)
  have run2: "checkForChanges example_env connected_bus mixed_log 0 =
     (Some (Thrown ''Unexpected token''),
      mixed_log\<lparr>cdc_position :=
        (\<lambda>t. None)(''Cliente'' \<mapsto> Some ''00000000-0000-4000-8000-00000000000c'')\<rparr>,
      1,
      [Send ''agentic.events'' ''Cliente.ClienteCriado'' ''{}''
         [(''x-event-id'', ''event-0''),
          (''x-correlation-id'', ''c0a80101-0000-4000-8000-000000000001'')],
       Log Debug ''Event published'',
       SetPosition ''Cliente'' ''00000000-0000-4000-8000-00000000000c'',
       Log Debug ''Cliente event published'',
       ReleaseClient])"
    by (simp add: checkForChanges_def processClienteChanges_def processProdutoChanges_def
        processPedidoChanges_def processChanges_def Cliente_def Produto_def Pedido_def
        select_log_def read_positions_def lastPosition_of_def lsn_of_def publish_def
        criarEvent_def example_env_def example_row_def connected_bus_def new_bus_def
        mixed_log_def MAIN_EXCHANGE_def show_nat.simps Let_def)
  have rd: "map (\<lambda>r. (row_id r, event_type r))
     (select_log mixed_log ''Cliente'' (cursor mixed_log ''Cliente'')) =
     [(''00000000-0000-4000-8000-00000000000b'', ''UPDATE''),
      (''00000000-0000-4000-8000-00000000000c'', ''INSERT''),
      (''00000000-0000-4000-8000-00000000000d'', ''INSERT'')]"
    by (simp add: select_log_def cursor_def read_positions_def lastPosition_of_def lsn_of_def
        mixed_log_def example_row_def)
  from rows_translated[OF run1, THEN conjunct1]
  have tie: "map (\<lambda>r. (''Cliente'', row_id r))
     (filter (\<lambda>r. event_type r = ''INSERT'')
        (select_log three_clientes ''Cliente'' (cursor three_clientes ''Cliente''))) =
   filter (\<lambda>p. fst p = ''Cliente'')
     (positions_set
      ([Send ''agentic.events'' ''Cliente.ClienteCriado'' ''{}''
         [(''x-event-id'', ''event-0''),
          (''x-correlation-id'', ''c0a80101-0000-4000-8000-000000000001'')],
       Log Debug ''Event published'',
       SetPosition ''Cliente'' ''00000000-0000-4000-8000-00000000000b'',
       Log Debug ''Cliente event published'',
       Send ''agentic.events'' ''Cliente.ClienteCriado'' ''{}''
         [(''x-event-id'', ''event-1''),
          (''x-correlation-id'', ''c0a80101-0000-4000-8000-000000000001'')],
       Log Debug ''Event published'',
       SetPosition ''Cliente'' ''00000000-0000-4000-8000-00000000000c'',
       Log Debug ''Cliente event published'',
       ReleaseClient] :: string envelope effect list))"
    by (simp add: tracked_def tables_distinct)
  from run1 run2 rd tie show ?thesis by (intro conjI)
qed

text \<open>
  The cursor of \<^verbatim>\<open>Cliente\<close> is \<^verbatim>\<open>...0a\<close> and the log holds a \<^verbatim>\<open>Cliente\<close> row with id
  \<^verbatim>\<open>...0b\<close> whose \<^verbatim>\<open>event_type\<close> is \<^verbatim>\<open>UPDATE\<close>: the row is read, its id is greater
  than the cursor, and the cycle publishes nothing and leaves the cursor where it
  was.
\<close>

theorem update_row_counterexample:
  "cursor \<lparr>event_log = [example_row ''00000000-0000-4000-8000-00000000000b'' ''UPDATE'' ''Cliente''],
           cdc_position = (\<lambda>t. None)(''Cliente'' \<mapsto> Some ''00000000-0000-4000-8000-00000000000a'')\<rparr>
      ''Cliente'' < row_id (example_row ''00000000-0000-4000-8000-00000000000b'' ''UPDATE'' ''Cliente'') \<and>
   checkForChanges example_env connected_bus
     \<lparr>event_log = [example_row ''00000000-0000-4000-8000-00000000000b'' ''UPDATE'' ''Cliente''],
      cdc_position = (\<lambda>t. None)(''Cliente'' \<mapsto> Some ''00000000-0000-4000-8000-00000000000a'')\<rparr> 0 =
   (None,
    \<lparr>event_log = [example_row ''00000000-0000-4000-8000-00000000000b'' ''UPDATE'' ''Cliente''],
      cdc_position = (\<lambda>t. None)(''Cliente'' \<mapsto> Some ''00000000-0000-4000-8000-00000000000a'')\<rparr>,
    0, [ReleaseClient])"
  by (simp add: checkForChanges_def processClienteChanges_def processProdutoChanges_def
        processPedidoChanges_def processChanges_def Cliente_def Produto_def Pedido_def
        select_log_def read_positions_def lastPosition_of_def lsn_of_def cursor_def
        example_env_def example_row_def Let_def)





end
